theory Spec2Isabelle
  imports Complex_Main "HOL-Library.Monad_Syntax" "HOL-Library.AList" "HOL-Library.Sublist"
begin

chapter \<open>Superior APIs MCP gateway: schema flattening, catalogue cache, dispatch\<close>

text \<open>
  The repository holds three server modules with their own copies of the core functions:
  \<^item> \<^verbatim>\<open>mcp_server_http.py\<close> (the JSON-RPC endpoint \<^verbatim>\<open>/mcp\<close>), suffix \<open>_http\<close> below;
  \<^item> \<^verbatim>\<open>mcp_server_sse.py\<close> (the SSE server and its \<^verbatim>\<open>/messages\<close> endpoint), suffix \<open>_sse\<close>;
  \<^item> \<^verbatim>\<open>dify_mcp_standalone.py\<close> (the Dify server), suffix \<open>_dify\<close>.
  Functions that are textually the same in two modules are modelled once.
\<close>

section \<open>JSON values, Python dictionaries and strings\<close>

text \<open>
  A value produced by \<^verbatim>\<open>json.loads\<close>. A Python \<^verbatim>\<open>dict\<close> keeps insertion order, so it is
  an association list with distinct keys: \<^const>\<open>map_of\<close> is the lookup, \<^const>\<open>AList.update\<close>
  is \<^verbatim>\<open>d[k] = v\<close> (an existing key keeps its position, a new key goes to the end) and
  \<^const>\<open>AList.delete\<close> is \<^verbatim>\<open>del d[k]\<close> / \<^verbatim>\<open>d.pop(k)\<close>.
  A float is a real number or one of the three values that \<^verbatim>\<open>json.loads\<close> returns for
  \<^verbatim>\<open>Infinity\<close> (also for a literal out of range such as \<^verbatim>\<open>1e999\<close>), \<^verbatim>\<open>-Infinity\<close> and \<^verbatim>\<open>NaN\<close>.
  Text is the list of the bytes of its UTF-8 encoding; a lone surrogate, which \<^verbatim>\<open>json.loads\<close>
  accepts as an escape such as \<^verbatim>\<open>\ud800\<close>, is written as the three bytes of its code point
  (\<open>0xED\<close>, then a byte from \<open>0xA0\<close> to \<open>0xBF\<close>, then a continuation byte).
  A raised exception is the result \<open>None\<close>.
\<close>

datatype pyfloat = Finite real | PosInf | NegInf | NaN

datatype json =
    JNull
  | JBool bool
  | JInt int
  | JFloat pyfloat
  | JStr string
  | JArr "json list"
  | JObj "(string \<times> json) list"

text \<open>\<^verbatim>\<open>sep.join(xs)\<close>.\<close>

fun join :: "string \<Rightarrow> string list \<Rightarrow> string" where
  "join sep [] = []"
| "join sep [x] = x"
| "join sep (x # y # ys) = x @ sep @ join sep (y # ys)"

text \<open>
  \<^verbatim>\<open>str(v)\<close> and the f-string conversion \<^verbatim>\<open>f"{v}"\<close>: a string is rendered as itself;
  the rendering of every other value is Python's built-in \<^verbatim>\<open>repr\<close>, which is a parameter here.
\<close>

definition py_str :: "(json \<Rightarrow> string) \<Rightarrow> json \<Rightarrow> string" where
  "py_str repr v = (case v of JStr s \<Rightarrow> s | _ \<Rightarrow> repr v)"

text \<open>
  Python strings are sequences of code points. In UTF-8 every code point is one leading byte
  followed by continuation bytes (\<open>0x80\<close> to \<open>0xBF\<close>), so \<^verbatim>\<open>len(s)\<close> counts the bytes that
  are not continuation bytes, and iterating a string yields one group of bytes per code point.
\<close>

definition is_continuation :: "char \<Rightarrow> bool" where
  "is_continuation c = (128 \<le> (of_char c :: nat) \<and> (of_char c :: nat) < 192)"

fun utf8_chars :: "string \<Rightarrow> string list" where
  "utf8_chars [] = []"
| "utf8_chars [c] = [[c]]"
| "utf8_chars (c # c' # cs) =
     (if is_continuation c'
      then (case utf8_chars (c' # cs) of g # gs \<Rightarrow> (c # g) # gs | [] \<Rightarrow> [[c]])
      else [c] # utf8_chars (c' # cs))"

definition py_len :: "string \<Rightarrow> nat" where
  "py_len s = length (filter (\<lambda>c. \<not> is_continuation c) s)"

text \<open>
  Iteration \<^verbatim>\<open>for v in x\<close>: the elements of a list, the keys of a dict, the characters of a
  string; every other JSON value raises \<^verbatim>\<open>TypeError\<close>.
\<close>

definition py_iter :: "json \<Rightarrow> json list option" where
  "py_iter v = (case v of
      JArr xs \<Rightarrow> Some xs
    | JObj d \<Rightarrow> Some (map (\<lambda>kv. JStr (fst kv)) d)
    | JStr s \<Rightarrow> Some (map JStr (utf8_chars s))
    | _ \<Rightarrow> None)"

text \<open>
  The loop \<^verbatim>\<open>for name, value in d.items(): d[name] = f(value)\<close>: every entry keeps its key and
  position; the first exception aborts the loop.
\<close>

fun map_values :: "('v \<Rightarrow> 'w option) \<Rightarrow> ('k \<times> 'v) list \<Rightarrow> ('k \<times> 'w) list option" where
  "map_values f [] = Some []"
| "map_values f (kv # ps) = do { w \<leftarrow> f (snd kv); ps' \<leftarrow> map_values f ps; Some ((fst kv, w) # ps') }"

lemma map_values_cong [fundef_cong]:
  "ps = qs \<Longrightarrow> (\<And>v. v \<in> snd ` set qs \<Longrightarrow> f v = g v) \<Longrightarrow> map_values f ps = map_values g qs"
  by (induction qs arbitrary: ps) (auto split: bind_splits)

lemma size_map_of: "map_of d k = Some v \<Longrightarrow> size v < Suc (size_list (size_prod (\<lambda>_. 0) size) d)"
  by (induction d) (auto split: if_splits)

lemma size_snd_set: "v \<in> snd ` set d \<Longrightarrow> size v < Suc (size_list (size_prod (\<lambda>_. 0) size) d)"
  by (induction d) fastforce+

text \<open>
  Rendering a value as the body of a \<^verbatim>\<open>JSONResponse\<close>: Starlette calls
  \<^verbatim>\<open>json.dumps(content, ensure_ascii=False, allow_nan=False, ...).encode("utf-8")\<close>. The first
  step raises \<^verbatim>\<open>ValueError\<close> for a float that is not finite, the second raises
  \<^verbatim>\<open>UnicodeEncodeError\<close> for text with a lone surrogate.
\<close>

fun encodable :: "string \<Rightarrow> bool" where
  "encodable [] = True"
| "encodable [c] = True"
| "encodable (c # c' # cs) =
     (\<not> ((of_char c :: nat) = 237 \<and> 160 \<le> (of_char c' :: nat) \<and> (of_char c' :: nat) \<le> 191)
      \<and> encodable (c' # cs))"

function renderable :: "json \<Rightarrow> bool" where
  "renderable JNull = True"
| "renderable (JBool b) = True"
| "renderable (JInt i) = True"
| "renderable (JFloat x) = (case x of Finite r \<Rightarrow> True | _ \<Rightarrow> False)"
| "renderable (JStr s) = encodable s"
| "renderable (JArr xs) = list_all renderable xs"
| "renderable (JObj d) = list_all (\<lambda>kv. encodable (fst kv) \<and> renderable (snd kv)) d"
  by pat_completeness auto
termination
  apply (relation "measure size")
    apply simp
  subgoal for xs x by (induction xs) auto
  subgoal for d kv using size_snd_set[of "snd kv" d] by auto
  done

text \<open>The membership test \<^verbatim>\<open>k in v\<close> for a string \<open>k\<close>: key test on a dict, element test on a
  list, substring test on a string, \<^verbatim>\<open>TypeError\<close> on every other JSON value.\<close>

definition py_in :: "string \<Rightarrow> json \<Rightarrow> bool option" where
  "py_in k v = (case v of
      JObj d \<Rightarrow> Some (map_of d k \<noteq> None)
    | JArr xs \<Rightarrow> Some (JStr k \<in> set xs)
    | JStr s \<Rightarrow> Some (sublist k s)
    | _ \<Rightarrow> None)"

text \<open>\<^verbatim>\<open>d.get(k, dflt)\<close>.\<close>

definition get_default :: "(string \<times> json) list \<Rightarrow> string \<Rightarrow> json \<Rightarrow> json" where
  "get_default d k dflt = (case map_of d k of None \<Rightarrow> dflt | Some v \<Rightarrow> v)"

section \<open>The schema flattener of the SSE server\<close>

text \<open>
  \<^verbatim>\<open>flatten_enum\<close> of \<^verbatim>\<open>mcp_server_sse.py\<close> (lines 105 to 140), as a function from the value
  passed to the value returned.

  Lines 124 to 129, the \<^verbatim>\<open>enum\<close> of the schema itself: \<^verbatim>\<open>current_desc + enum_desc\<close> raises
  unless the description is a string, and the comprehension raises unless the enum can be
  iterated.
\<close>

definition sse_root_enum :: "(json \<Rightarrow> string) \<Rightarrow> (string \<times> json) list \<Rightarrow> (string \<times> json) list option" where
  "sse_root_enum repr d = (case map_of d ''enum'' of
                 None \<Rightarrow> Some d
               | Some enum_values \<Rightarrow> do {
                   current_desc \<leftarrow> (case map_of d ''description'' of
                                      None \<Rightarrow> Some []
                                    | Some (JStr s) \<Rightarrow> Some s
                                    | Some _ \<Rightarrow> None);
                   vs \<leftarrow> py_iter enum_values;
                   Some (AList.delete ''enum'' (AList.update ''description''
                          (JStr (current_desc @ '' | Enum: '' @ join '', '' (map (py_str repr) vs))) d))
                 })"

text \<open>
  Lines 132 to 138. \<^verbatim>\<open>schema['properties'].items()\<close> raises unless the value is a dict. Both
  assignments go to keys that are present, so they keep their position. The results of the two
  recursive passes arrive as arguments (\<open>None\<close>: the pass raised; \<open>Some None\<close>: the key
  is absent and nothing is assigned).
\<close>

fun store :: "string \<Rightarrow> json option \<Rightarrow> (string \<times> json) list \<Rightarrow> (string \<times> json) list" where
  "store k None d = d"
| "store k (Some v) d = AList.update k v d"

definition sse_assign :: "(string \<times> json) list \<Rightarrow> (string \<times> json) list option option \<Rightarrow> json option option \<Rightarrow> json option" where
  "sse_assign d1 props_result items_result = do {
     props' \<leftarrow> props_result;
     items' \<leftarrow> items_result;
     Some (JObj (store ''items'' items' (store ''properties'' (map_option JObj props') d1)))
   }"

lemma sse_root_enum_other:
  "sse_root_enum repr d = Some d1 \<Longrightarrow> k \<noteq> ''enum'' \<Longrightarrow> k \<noteq> ''description'' \<Longrightarrow> map_of d1 k = map_of d k"
  by (auto simp: sse_root_enum_def update_conv' delete_conv' split: option.splits bind_splits)

function flatten_enum_sse :: "(json \<Rightarrow> string) \<Rightarrow> json \<Rightarrow> json option" where
  "flatten_enum_sse repr (JObj d) =
     (case sse_root_enum repr d of
        None \<Rightarrow> None
      | Some d1 \<Rightarrow>
          sse_assign d1
            (case map_of d1 ''properties'' of
               None \<Rightarrow> Some None
             | Some (JObj props) \<Rightarrow> map_option Some (map_values (flatten_enum_sse repr) props)
             | Some _ \<Rightarrow> None)
            (case map_of d1 ''items'' of
               None \<Rightarrow> Some None
             | Some items \<Rightarrow> map_option Some (flatten_enum_sse repr items)))"
| "flatten_enum_sse repr JNull = Some JNull"
| "flatten_enum_sse repr (JBool b) = Some (JBool b)"
| "flatten_enum_sse repr (JInt i) = Some (JInt i)"
| "flatten_enum_sse repr (JFloat x) = Some (JFloat x)"
| "flatten_enum_sse repr (JStr s) = Some (JStr s)"
| "flatten_enum_sse repr (JArr xs) = Some (JArr xs)"
  by pat_completeness auto
termination
proof (relation "measure (\<lambda>(r, v). size v)", goal_cases)
  case 1
  show ?case by simp
next
  case (2 repr d d1 x props v)
  from 2 have "map_of d ''properties'' = Some (JObj props)"
    by (simp add: sse_root_enum_other)
  from size_map_of[OF this] size_snd_set[OF 2(4)] show ?case by simp
next
  case (3 repr d d1 items)
  from 3 have "map_of d ''items'' = Some items"
    by (simp add: sse_root_enum_other)
  from size_map_of[OF this] show ?case by simp
qed

section \<open>The schema flattener of the HTTP server\<close>

text \<open>
  \<^verbatim>\<open>flatten_enum\<close> of \<^verbatim>\<open>mcp_server_http.py\<close> (lines 359 to 406), as a function from the value
  passed to the value returned. The delimiter of line 386 and 402 is \<^verbatim>\<open>" | XX: "\<close> where \<^verbatim>\<open>XX\<close>
  are the two characters U+9078 and U+9805, here in UTF-8.
\<close>

definition enum_delim_list :: string where
  "enum_delim_list = '' | '' @ [CHR 0xE9, CHR 0x81, CHR 0xB8, CHR 0xE9, CHR 0xA0, CHR 0x85] @ '': ''"

definition describe_enum :: "(json \<Rightarrow> string) \<Rightarrow> json \<Rightarrow> json \<Rightarrow> string option" where
  "describe_enum repr enum_val original_desc = (case enum_val of
      JObj e \<Rightarrow> Some (py_str repr original_desc @ '' | Enum: '' @
                       join '', '' (map (\<lambda>kv. fst kv @ '': '' @ py_str repr (snd kv)) e))
    | JArr xs \<Rightarrow> Some (py_str repr original_desc @ enum_delim_list @ join '', '' (map (py_str repr) xs))
    | _ \<Rightarrow> None)"

text \<open>Lines 395 to 402 (and 379 to 386): the description is only rewritten when the enum is a
  dict or a list.\<close>

definition set_description :: "(json \<Rightarrow> string) \<Rightarrow> json \<Rightarrow> (string \<times> json) list \<Rightarrow> (string \<times> json) list" where
  "set_description repr enum_val pd =
     (case describe_enum repr enum_val (get_default pd ''description'' (JStr [])) of
        None \<Rightarrow> pd
      | Some s \<Rightarrow> AList.update ''description'' (JStr s) pd)"

definition prop_enum :: "(json \<Rightarrow> string) \<Rightarrow> (string \<times> json) list \<Rightarrow> (string \<times> json) list" where
  "prop_enum repr pd = (case map_of pd ''enum'' of
      None \<Rightarrow> pd
    | Some enum_val \<Rightarrow> AList.delete ''enum'' (set_description repr enum_val pd))"

text \<open>
  Lines 376 to 388, for a property of type \<^verbatim>\<open>array\<close>: when \<^verbatim>\<open>items\<close> carries an \<^verbatim>\<open>enum\<close>, the
  property's description is extended and the \<^verbatim>\<open>enum\<close> is popped from \<^verbatim>\<open>items\<close>.
  \<^verbatim>\<open>items['enum']\<close> raises when \<^verbatim>\<open>items\<close> is a list or a string that contains \<^verbatim>\<open>'enum'\<close>.
\<close>

definition array_items_enum :: "(json \<Rightarrow> string) \<Rightarrow> (string \<times> json) list \<Rightarrow> (string \<times> json) list option" where
  "array_items_enum repr pd =
     (let items = get_default pd ''items'' (JObj []) in
      case py_in ''enum'' items of
        None \<Rightarrow> None
      | Some False \<Rightarrow> Some pd
      | Some True \<Rightarrow>
          (case items of
             JObj idict \<Rightarrow>
               (case map_of idict ''enum'' of
                  None \<Rightarrow> None
                | Some enum_val \<Rightarrow>
                    Some (AList.update ''items'' (JObj (AList.delete ''enum'' idict))
                           (set_description repr enum_val pd)))
           | _ \<Rightarrow> None))"

text \<open>
  The loop of lines 371 to 404 runs over \<^verbatim>\<open>properties.items()\<close>, which raises unless
  \<^verbatim>\<open>properties\<close> is a dict, and \<^verbatim>\<open>prop.get\<close> raises unless the property is a dict.
  For a property of type \<^verbatim>\<open>object\<close> the entry becomes the flattened copy made at line 373; lines
  393 to 404 then change the old property object, which the schema no longer holds.
  The root's own \<^verbatim>\<open>enum\<close> and \<^verbatim>\<open>items\<close> are not looked at.
\<close>

lemma size_list_delete: "size_list f (AList.delete k d) \<le> size_list f d"
  by (induction d) auto

lemma size_list_delete_le: "Suc (size_list f d) \<le> n \<Longrightarrow> size_list f (AList.delete k d) \<le> n"
  using size_list_delete[of f k d] by simp

lemma array_items_size:
  assumes "array_items_enum repr pd = Some pd2" "get_default pd2 ''items'' (JObj []) = JObj idict"
  shows "size_list (size_prod (\<lambda>_. 0) size) idict \<le> size_list (size_prod (\<lambda>_. 0) size) pd"
proof (cases "map_of pd ''items''")
  case None
  with assms show ?thesis
    by (auto simp: array_items_enum_def get_default_def py_in_def Let_def)
next
  case (Some it)
  from size_map_of[OF Some] have it: "size it \<le> size_list (size_prod (\<lambda>_. 0) size) pd" by simp
  from assms Some it show ?thesis
    by (auto simp: array_items_enum_def get_default_def py_in_def Let_def update_conv'
             split: option.splits bool.splits json.splits if_splits
             intro!: size_list_delete_le)
qed

function flatten_enum_http :: "(json \<Rightarrow> string) \<Rightarrow> json \<Rightarrow> json option" where
  "flatten_enum_http repr (JObj d) =
     (case map_of d ''properties'' of
        None \<Rightarrow> Some (JObj d)
      | Some (JObj props) \<Rightarrow>
          map_option (\<lambda>props'. JObj (AList.update ''properties'' (JObj props') d))
            (map_values (\<lambda>prop_schema.
               case prop_schema of
                 JObj pd \<Rightarrow>
                   if map_of pd ''type'' = Some (JStr ''object'') then flatten_enum_http repr (JObj pd)
                   else if map_of pd ''type'' = Some (JStr ''array'') then
                     (case array_items_enum repr pd of
                        None \<Rightarrow> None
                      | Some pd2 \<Rightarrow>
                          (case get_default pd2 ''items'' (JObj []) of
                             JObj idict \<Rightarrow>
                               map_option (\<lambda>items'. JObj (prop_enum repr (AList.update ''items'' items' pd2)))
                                 (flatten_enum_http repr (JObj idict))
                           | _ \<Rightarrow> Some (JObj (prop_enum repr pd2))))
                   else Some (JObj (prop_enum repr pd))
               | _ \<Rightarrow> None) props)
      | Some _ \<Rightarrow> None)"
| "flatten_enum_http repr JNull = Some JNull"
| "flatten_enum_http repr (JBool b) = Some (JBool b)"
| "flatten_enum_http repr (JInt i) = Some (JInt i)"
| "flatten_enum_http repr (JFloat x) = Some (JFloat x)"
| "flatten_enum_http repr (JStr s) = Some (JStr s)"
| "flatten_enum_http repr (JArr xs) = Some (JArr xs)"
  by pat_completeness auto

termination
  apply (relation "measure (\<lambda>(r, v). size v)")
    apply simp
  subgoal premises p for repr d x props prp pd
    using size_map_of[OF p(1)] size_snd_set[OF p(3)] p(2,4) by simp
  subgoal premises p for repr d x props prp pd pd2 x7
    using size_map_of[OF p(1)] size_snd_set[OF p(3)] p(2,4) array_items_size[OF p(7) p(8)]
    by simp
  done

text \<open>The body of the loop, named for the proofs.\<close>

definition http_prop :: "(json \<Rightarrow> string) \<Rightarrow> json \<Rightarrow> json option" where
  "http_prop repr prop_schema =
     (case prop_schema of
        JObj pd \<Rightarrow>
          if map_of pd ''type'' = Some (JStr ''object'') then flatten_enum_http repr (JObj pd)
          else if map_of pd ''type'' = Some (JStr ''array'') then
            (case array_items_enum repr pd of
               None \<Rightarrow> None
             | Some pd2 \<Rightarrow>
                 (case get_default pd2 ''items'' (JObj []) of
                    JObj idict \<Rightarrow>
                      map_option (\<lambda>items'. JObj (prop_enum repr (AList.update ''items'' items' pd2)))
                        (flatten_enum_http repr (JObj idict))
                  | _ \<Rightarrow> Some (JObj (prop_enum repr pd2))))
          else Some (JObj (prop_enum repr pd))
      | _ \<Rightarrow> None)"

lemma flatten_enum_http_unfold:
  "flatten_enum_http repr (JObj d) =
     (case map_of d ''properties'' of
        None \<Rightarrow> Some (JObj d)
      | Some (JObj props) \<Rightarrow>
          map_option (\<lambda>props'. JObj (AList.update ''properties'' (JObj props') d))
            (map_values (http_prop repr) props)
      | Some _ \<Rightarrow> None)"
  unfolding http_prop_def[abs_def] by simp

declare flatten_enum_http.simps(1) [simp del]

section \<open>More of Python's strings and values\<close>

text \<open>
  \<^verbatim>\<open>s.lower()\<close> and \<^verbatim>\<open>s.upper()\<close> on ASCII letters. They are applied to HTTP method
  names, where only the outcome on the letters of \<^verbatim>\<open>get\<close>, \<^verbatim>\<open>post\<close>, \<^verbatim>\<open>put\<close>, \<^verbatim>\<open>delete\<close>
  and \<^verbatim>\<open>patch\<close> matters, and to header names.
\<close>

definition ascii_lower :: "char \<Rightarrow> char" where
  "ascii_lower c = (let n = (of_char c :: nat) in if 65 \<le> n \<and> n \<le> 90 then char_of (n + 32) else c)"

definition ascii_upper :: "char \<Rightarrow> char" where
  "ascii_upper c = (let n = (of_char c :: nat) in if 97 \<le> n \<and> n \<le> 122 then char_of (n - 32) else c)"

definition py_lower :: "string \<Rightarrow> string" where
  "py_lower s = map ascii_lower s"

definition py_upper :: "string \<Rightarrow> string" where
  "py_upper s = map ascii_upper s"

text \<open>\<^verbatim>\<open>s.replace(old, new)\<close>: every occurrence, from the left, without overlap.\<close>

function py_replace :: "string \<Rightarrow> string \<Rightarrow> string \<Rightarrow> string" where
  "py_replace old new s =
     (if old = [] then new @ concat (map (\<lambda>g. g @ new) (utf8_chars s))
      else if s = [] then []
      else if prefix old s then new @ py_replace old new (drop (length old) s)
      else hd s # py_replace old new (tl s))"
  by pat_completeness auto
termination
  by (relation "measure (\<lambda>(old, new, s). length s)") auto

declare py_replace.simps [simp del]


text \<open>
  \<^verbatim>\<open>a == b\<close> on JSON values: booleans, integers and floats compare as numbers (\<^verbatim>\<open>NaN\<close> is
  equal to nothing, itself included), dicts compare without regard to the order of their keys.
\<close>

definition py_num :: "json \<Rightarrow> pyfloat option" where
  "py_num v = (case v of
      JBool b \<Rightarrow> Some (Finite (if b then 1 else 0))
    | JInt i \<Rightarrow> Some (Finite (real_of_int i))
    | JFloat x \<Rightarrow> Some x
    | _ \<Rightarrow> None)"

function py_eq :: "json \<Rightarrow> json \<Rightarrow> bool" where
  "py_eq (JArr xs) (JArr ys) = list_all2 py_eq xs ys"
| "py_eq (JObj a) (JObj b) =
     (length a = length b \<and>
      list_all (\<lambda>kv. case map_of b (fst kv) of None \<Rightarrow> False | Some v' \<Rightarrow> py_eq (snd kv) v') a)"
| "py_eq (JStr s) (JStr t) = (s = t)"
| "py_eq JNull JNull = True"
| "py_eq (JArr xs) (JObj b) = False"
| "py_eq (JArr xs) (JStr t) = False"
| "py_eq (JArr xs) JNull = False"
| "py_eq (JArr xs) (JBool c) = False"
| "py_eq (JArr xs) (JInt j) = False"
| "py_eq (JArr xs) (JFloat y) = False"
| "py_eq (JObj a) (JArr ys) = False"
| "py_eq (JObj a) (JStr t) = False"
| "py_eq (JObj a) JNull = False"
| "py_eq (JObj a) (JBool c) = False"
| "py_eq (JObj a) (JInt j) = False"
| "py_eq (JObj a) (JFloat y) = False"
| "py_eq (JStr s) (JArr ys) = False"
| "py_eq (JStr s) (JObj b) = False"
| "py_eq (JStr s) JNull = False"
| "py_eq (JStr s) (JBool c) = False"
| "py_eq (JStr s) (JInt j) = False"
| "py_eq (JStr s) (JFloat y) = False"
| "py_eq JNull (JArr ys) = False"
| "py_eq JNull (JObj b) = False"
| "py_eq JNull (JStr t) = False"
| "py_eq JNull (JBool c) = False"
| "py_eq JNull (JInt j) = False"
| "py_eq JNull (JFloat y) = False"
| "py_eq (JBool b') w = (py_num (JBool b') = py_num w)"
| "py_eq (JInt i) w = (py_num (JInt i) = py_num w)"
| "py_eq (JFloat x) w = (x \<noteq> NaN \<and> py_num (JFloat x) = py_num w)"
  by pat_completeness auto
termination
  apply (relation "measure (\<lambda>(v, w). size v)")
    apply simp
  subgoal for xs ys x y
    by (induction xs) auto
  subgoal for a b kv v'
    using size_snd_set[of "snd kv" a] by auto
  done


text \<open>\<^verbatim>\<open>x.get(k, dflt)\<close>, \<^verbatim>\<open>x.items()\<close> and \<^verbatim>\<open>x[k]\<close> on a JSON value: all three raise unless \<open>x\<close>
  is a dict, and \<^verbatim>\<open>x[k]\<close> raises when the key is missing.\<close>

definition py_get :: "json \<Rightarrow> string \<Rightarrow> json \<Rightarrow> json option" where
  "py_get x k dflt = (case x of JObj d \<Rightarrow> Some (get_default d k dflt) | _ \<Rightarrow> None)"

definition py_items :: "json \<Rightarrow> (string \<times> json) list option" where
  "py_items x = (case x of JObj d \<Rightarrow> Some d | _ \<Rightarrow> None)"

definition py_index :: "json \<Rightarrow> string \<Rightarrow> json option" where
  "py_index x k = (case x of JObj d \<Rightarrow> map_of d k | _ \<Rightarrow> None)"

text \<open>\<^verbatim>\<open>len(x)\<close> is defined on lists, dicts and strings; the callers only log it.\<close>

definition py_sized :: "json \<Rightarrow> unit option" where
  "py_sized x = (case x of JArr _ \<Rightarrow> Some () | JObj _ \<Rightarrow> Some () | JStr _ \<Rightarrow> Some () | _ \<Rightarrow> None)"

text \<open>A \<^verbatim>\<open>for\<close> loop that threads an accumulator and stops at the first exception.\<close>

fun foldM :: "('x \<Rightarrow> 'a \<Rightarrow> 'a option) \<Rightarrow> 'x list \<Rightarrow> 'a \<Rightarrow> 'a option" where
  "foldM f [] acc = Some acc"
| "foldM f (x # xs) acc = (case f x acc of None \<Rightarrow> None | Some acc' \<Rightarrow> foldM f xs acc')"

section \<open>Requests and credentials\<close>

text \<open>
  What the functions read of a FastAPI \<^verbatim>\<open>Request\<close>. \<^verbatim>\<open>request.headers.get\<close> compares names
  without regard to case and returns the first match; \<^verbatim>\<open>request.query_params.get\<close> returns the
  last value given for a key.
\<close>

record request =
  headers :: "(string \<times> string) list"
  query_params :: "(string \<times> string) list"

definition headers_get :: "request \<Rightarrow> string \<Rightarrow> string option" where
  "headers_get r k = map_of (map (\<lambda>nv. (py_lower (fst nv), snd nv)) (headers r)) (py_lower k)"

definition query_get :: "request \<Rightarrow> string \<Rightarrow> string option" where
  "query_get r k = map_of (rev (query_params r)) k"

text \<open>Python's \<^verbatim>\<open>a or b\<close> on values that are a string or \<^verbatim>\<open>None\<close> (\<open>None\<close> here).\<close>

definition truthy :: "string option \<Rightarrow> bool" where
  "truthy t = (case t of None \<Rightarrow> False | Some s \<Rightarrow> s \<noteq> [])"

definition py_or :: "string option \<Rightarrow> string option \<Rightarrow> string option" where
  "py_or a b = (if truthy a then a else b)"

text \<open>\<^verbatim>\<open>extract_token\<close> of \<^verbatim>\<open>mcp_server_http.py\<close> (lines 240 to 259) and of
  \<^verbatim>\<open>mcp_server_sse.py\<close> (lines 392 to 415): the same chain of \<^verbatim>\<open>or\<close>.\<close>

definition extract_token :: "request \<Rightarrow> string option" where
  "extract_token r =
     py_or (query_get r ''token'')
    (py_or (headers_get r ''token'')
    (py_or (headers_get r ''TOKEN'')
    (py_or (Some (py_replace ''bearer '' [] (py_replace ''Bearer '' []
                    (case headers_get r ''Authorization'' of None \<Rightarrow> [] | Some a \<Rightarrow> a))))
    (py_or (headers_get r ''X-API-Key'')
           (headers_get r ''api-key'')))))"

datatype http_exception = HTTPException nat string

text \<open>\<^verbatim>\<open>extract_token\<close> of \<^verbatim>\<open>dify_mcp_standalone.py\<close> (lines 49 to 71); \<open>Inl\<close> is the raised
  \<^verbatim>\<open>HTTPException\<close>.\<close>

definition extract_token_dify :: "request \<Rightarrow> http_exception + string" where
  "extract_token_dify r =
     (if truthy (headers_get r ''token'') then Inr (the (headers_get r ''token''))
      else let auth_header = (case headers_get r ''Authorization'' of None \<Rightarrow> [] | Some a \<Rightarrow> a) in
        if prefix ''Bearer '' auth_header then Inr (drop 7 auth_header)
        else if truthy (query_get r ''token'') then Inr (the (query_get r ''token''))
        else Inl (HTTPException 401 ''Token required. Please provide token in headers.''))"

section \<open>The upstream service\<close>

text \<open>
  One request of the \<^verbatim>\<open>aiohttp\<close> client session, and what comes back: an exception of the
  client, or a response with its status, its text and the text parsed as JSON (\<open>None\<close> when it
  is not JSON). The upstream service is a function from requests to replies; the servers append
  every request they issue to the log \<open>sent\<close>.
\<close>

record http_call =
  call_method :: string
  call_url :: string
  call_headers :: "(string \<times> json) list"
  call_params :: "json option"
  call_json :: "json option"

datatype reply = ClientError | TimeoutError | OtherError | Reply nat string "json option"

record config =
  superior_api_base :: string
  plugins_list_url :: string

section \<open>Tool descriptors (HTTP and SSE server)\<close>

text \<open>
  The dict built at lines 509 to 520 of \<^verbatim>\<open>mcp_server_http.py\<close> (264 to 275 of
  \<^verbatim>\<open>mcp_server_sse.py\<close>) and kept in the cache; \<open>meta\<close> is the key \<^verbatim>\<open>_meta\<close> and \<open>meth\<close> its key
  \<^verbatim>\<open>method\<close>. The record holds the values as they are once the tool is cached: \<open>inputSchema\<close>
  is the flattened schema and \<open>original_spec\<close> is the operation spec after the flattener has
  run, which rewrites the property dicts that the spec shares with the input schema (the heap
  model further down shows that sharing).
\<close>

record tool_meta =
  base_url :: string
  path :: string
  meth :: string
  plugin_name :: json
  original_spec :: json

record tool =
  name :: json
  description :: json
  inputSchema :: json
  meta :: tool_meta

definition tool_json :: "tool \<Rightarrow> json" where
  "tool_json t = JObj
     [(''name'', name t), (''description'', description t), (''inputSchema'', inputSchema t),
      (''_meta'', JObj [(''base_url'', JStr (base_url (meta t))), (''path'', JStr (path (meta t))),
                        (''method'', JStr (meth (meta t))), (''plugin_name'', plugin_name (meta t)),
                        (''original_spec'', original_spec (meta t))])]"

section \<open>The catalogue cache and the tool invoker (HTTP and SSE server)\<close>

text \<open>
  The module globals \<^verbatim>\<open>tools_cache\<close> and \<^verbatim>\<open>session_store\<close> (of a session only the flag
  \<^verbatim>\<open>initialized\<close> is kept; its two timestamps are written and never read), and the log of the
  requests sent upstream.
\<close>

record server =
  tools_cache :: "string \<rightharpoonup> tool list"
  session_store :: "string \<rightharpoonup> bool"
  sent :: "http_call list"

text \<open>
  \<^verbatim>\<open>fetch_superior_apis_tools\<close>, lines 411 to 540 of \<^verbatim>\<open>mcp_server_http.py\<close> and 144 to 296 of
  \<^verbatim>\<open>mcp_server_sse.py\<close>. The token is \<open>None\<close> for Python's \<^verbatim>\<open>None\<close>. Every exception ends
  in one of the handlers of lines 532 to 540, which return the empty list.

  The loops of lines 456 to 520 (201 to 275), which build the tool dicts from the parsed
  catalogue, are the parameter \<open>synthesize\<close>: its value on a catalogue is the list of the tools
  built, or \<open>None\<close> when the loops raise. They read the catalogue and the constant
  \<^verbatim>\<open>SUPERIOR_API_BASE\<close> and nothing else, and they write to the new tool list and to objects
  of the parsed catalogue only, which nothing but the new tools refers to.
\<close>

definition fetch_superior_apis_tools ::
  "(json \<Rightarrow> tool list option) \<Rightarrow> config \<Rightarrow> (http_call \<Rightarrow> reply) \<Rightarrow> string option \<Rightarrow> server \<Rightarrow> tool list \<times> server" where
  "fetch_superior_apis_tools synthesize cfg upstream token s =
     (if \<not> truthy token then ([], s)
      else if py_len (the token) < 10 then ([], s)
      else (case tools_cache s (the token) of
              Some tools \<Rightarrow> (tools, s)
            | None \<Rightarrow>
                let call = \<lparr> call_method = ''POST'', call_url = plugins_list_url cfg,
                              call_headers = [(''token'', JStr (the token)),
                                              (''Content-Type'', JStr ''application/json'')],
                              call_params = None, call_json = Some (JObj []) \<rparr>;
                    s1 = s\<lparr> sent := sent s @ [call] \<rparr>
                in (case upstream call of
                      Reply status response_text parsed \<Rightarrow>
                        if status = 200 then
                          (case parsed of
                             None \<Rightarrow> ([], s1)
                           | Some data \<Rightarrow>
                               (case synthesize data of
                                  None \<Rightarrow> ([], s1)
                                | Some tools \<Rightarrow>
                                    (tools, s1\<lparr> tools_cache := (tools_cache s1)(the token \<mapsto> tools) \<rparr>)))
                        else ([], s1)
                    | _ \<Rightarrow> ([], s1))))"

text \<open>
  The result dict of \<^verbatim>\<open>call_superior_api_tool\<close>. A message that ends in the text of a caught
  exception is \<open>ExceptionText prefix\<close>: the text itself is not modelled.
\<close>

datatype message = Text string | ExceptionText string

record call_result =
  success :: bool
  content :: string
  error :: "message option"
  status_code :: "nat option"

text \<open>
  \<^verbatim>\<open>call_superior_api_tool\<close>, lines 543 to 625 of \<^verbatim>\<open>mcp_server_http.py\<close> and 298 to 388 of
  \<^verbatim>\<open>mcp_server_sse.py\<close>. The tool is looked up in the cache only; \<^verbatim>\<open>GET\<close> sends the whole
  argument object as the query, every other method sends it as the JSON body.
\<close>

definition call_superior_api_tool ::
  "(json \<Rightarrow> string) \<Rightarrow> (http_call \<Rightarrow> reply) \<Rightarrow> string \<Rightarrow> json \<Rightarrow> json \<Rightarrow> server \<Rightarrow> call_result \<times> server" where
  "call_superior_api_tool repr upstream token tool_name arguments s =
     (case find (\<lambda>t. py_eq (name t) tool_name)
                (case tools_cache s token of None \<Rightarrow> [] | Some tools \<Rightarrow> tools) of
        None \<Rightarrow>
          (\<lparr> success = False, content = [],
             error = Some (Text ([CHR 0xE5, CHR 0xB7, CHR 0xA5, CHR 0xE5, CHR 0x85, CHR 0xB7] @ '' '' @
                                 py_str repr tool_name @ '' '' @
                                 [CHR 0xE4, CHR 0xB8, CHR 0x8D, CHR 0xE5, CHR 0xAD, CHR 0x98, CHR 0xE5, CHR 0x9C, CHR 0xA8])),
             status_code = None \<rparr>, s)
      | Some t \<Rightarrow>
          let full_url = base_url (meta t) @ path (meta t);
              hdrs = [(''token'', JStr token), (''Content-Type'', JStr ''application/json'')];
              call = (if meth (meta t) = ''GET''
                      then \<lparr> call_method = ''GET'', call_url = full_url, call_headers = hdrs,
                             call_params = Some arguments, call_json = None \<rparr>
                      else \<lparr> call_method = meth (meta t), call_url = full_url, call_headers = hdrs,
                             call_params = None, call_json = Some arguments \<rparr>);
              s1 = s\<lparr> sent := sent s @ [call] \<rparr>
          in (case upstream call of
                Reply status result parsed \<Rightarrow>
                  (\<lparr> success = (status = 200), content = result, error = None,
                     status_code = Some status \<rparr>, s1)
              | ClientError \<Rightarrow>
                  (\<lparr> success = False, content = [],
                     error = Some (ExceptionText ([CHR 0xE7, CHR 0xB6, CHR 0xB2, CHR 0xE8, CHR 0xB7, CHR 0xAF, CHR 0xE9, CHR 0x80, CHR 0xA3, CHR 0xE6, CHR 0x8E, CHR 0xA5, CHR 0xE9, CHR 0x8C, CHR 0xAF, CHR 0xE8, CHR 0xAA, CHR 0xA4] @ '': '')),
                     status_code = None \<rparr>, s1)
              | TimeoutError \<Rightarrow>
                  (\<lparr> success = False, content = [],
                     error = Some (Text [CHR 0xE8, CHR 0xAB, CHR 0x8B, CHR 0xE6, CHR 0xB1, CHR 0x82, CHR 0xE9, CHR 0x80, CHR 0xBE, CHR 0xE6, CHR 0x99, CHR 0x82]),
                     status_code = None \<rparr>, s1)
              | OtherError \<Rightarrow>
                  (\<lparr> success = False, content = [],
                     error = Some (ExceptionText ([CHR 0xE6, CHR 0x9C, CHR 0xAA, CHR 0xE7, CHR 0x9F, CHR 0xA5, CHR 0xE9, CHR 0x8C, CHR 0xAF, CHR 0xE8, CHR 0xAA, CHR 0xA4] @ '': '')),
                     status_code = None \<rparr>, s1)))"

section \<open>The JSON-RPC endpoint of the HTTP server\<close>

text \<open>The dicts of \<^verbatim>\<open>create_jsonrpc_response\<close> and \<^verbatim>\<open>create_jsonrpc_error\<close> (lines 318 to 357):
  the request id and the result, or the request id, the code, the message and the data.\<close>

datatype error_data = Data json | ExceptionData

datatype jsonrpc = Response json json | ErrorResponse json int message "error_data option"

fun response_id :: "jsonrpc \<Rightarrow> json" where
  "response_id (Response request_id result) = request_id"
| "response_id (ErrorResponse request_id code msg data) = request_id"





text \<open>\<^verbatim>\<open>handle_tools_list\<close>, lines 814 to 855: the public form of a tool is built at lines 839
  to 843.\<close>

definition mcp_tool :: "tool \<Rightarrow> json" where
  "mcp_tool t = JObj [(''name'', name t), (''description'', description t), (''inputSchema'', inputSchema t)]"

definition handle_tools_list ::
  "(json \<Rightarrow> tool list option) \<Rightarrow> config \<Rightarrow> (http_call \<Rightarrow> reply) \<Rightarrow> json \<Rightarrow> request \<Rightarrow> server \<Rightarrow> jsonrpc \<times> server" where
  "handle_tools_list synthesize cfg upstream request_id http_request s =
     (let token = extract_token http_request in
      if \<not> truthy token
      then (ErrorResponse request_id (- 32002) (Text ''Authentication required: token missing'') None, s)
      else if py_len (the token) < 10
      then (ErrorResponse request_id (- 32002) (Text ''Authentication failed: invalid token format'') None, s)
      else (case fetch_superior_apis_tools synthesize cfg upstream token s of
              (superior_tools, s') \<Rightarrow>
                (Response request_id (JObj [(''tools'', JArr (map mcp_tool superior_tools))]), s')))"




text \<open>
  Whether \<^verbatim>\<open>JSONResponse(content)\<close> can render a response dict. The request id, the result
  and the error data are values taken from the request, the cache or the upstream reply. A
  message built by the server is text; the text of a caught exception (\<open>ExceptionText\<close>,
  \<open>ExceptionData\<close>) is taken to be renderable: Python writes the values it quotes there with
  \<^verbatim>\<open>repr\<close>, which escapes surrogates.
\<close>

fun rpc_renderable :: "jsonrpc \<Rightarrow> bool" where
  "rpc_renderable (Response request_id result) = (renderable request_id \<and> renderable result)"
| "rpc_renderable (ErrorResponse request_id code msg data) =
     (renderable request_id
      \<and> (case msg of Text m \<Rightarrow> encodable m | ExceptionText m \<Rightarrow> True)
      \<and> (case data of Some (Data v) \<Rightarrow> renderable v | _ \<Rightarrow> True))"

text \<open>
  \<^verbatim>\<open>mcp_endpoint\<close> for a POST request (lines 643 to 654 and 674 to 725): the HTTP status and the
  JSON body of the answer. \<^verbatim>\<open>validate_origin\<close> returns \<^verbatim>\<open>True\<close> on every path. The session id
  is the request's header or a fresh UUID.

  The body of the request is empty, or bytes that are no text (\<^verbatim>\<open>json.loads\<close> raises
  \<^verbatim>\<open>UnicodeDecodeError\<close>, which is not a \<^verbatim>\<open>JSONDecodeError\<close> and ends in the handler of line
  720), or text that is not JSON, or the value that \<^verbatim>\<open>json.loads\<close> returns.

  Every \<^verbatim>\<open>JSONResponse\<close> renders its content when it is built. For a batch this happens at line
  704, inside the \<^verbatim>\<open>try\<close> of line 675 only: when one response of the list cannot be rendered,
  the answer is the error of line 722. For a single request it happens at line 711, inside the
  \<^verbatim>\<open>try\<close> of line 708: the handler of line 712 answers with the error -32600, whose only
  value from the request is the id, and when that cannot be rendered either the answer is again
  the error of line 722.
\<close>

datatype body = EmptyBody | Undecodable | NotJson | Json json





section \<open>The message endpoint of the SSE server\<close>

text \<open>
  \<^verbatim>\<open>handle_mcp_messages\<close>, lines 800 to 965 of \<^verbatim>\<open>mcp_server_sse.py\<close>. The outcome is a
  \<^verbatim>\<open>JSONResponse\<close> with its status, the empty answer 204, a raised \<^verbatim>\<open>HTTPException\<close>, or
  \<open>Unhandled\<close>: an exception that leaves the handler.

  The handler of line 953 answers every exception that is neither an \<^verbatim>\<open>HTTPException\<close> nor a
  \<^verbatim>\<open>JSONDecodeError\<close> with the error -32603 under the id of the request; building that answer
  raises again when the id cannot be rendered.
\<close>

datatype sse_outcome = JSONResponse nat jsonrpc | NoContent | Raise http_exception | Unhandled

definition sse_internal_error :: "json \<Rightarrow> sse_outcome" where
  "sse_internal_error request_id =
     (if renderable request_id
      then JSONResponse 500 (ErrorResponse request_id (- 32603)
             (Text [CHR 0xE5, CHR 0x85, CHR 0xA7, CHR 0xE9, CHR 0x83, CHR 0xA8, CHR 0xE9, CHR 0x8C, CHR 0xAF, CHR 0xE8, CHR 0xAA, CHR 0xA4])
             (Some ExceptionData))
      else Unhandled)"

text \<open>\<^verbatim>\<open>return JSONResponse(response, status_code=status)\<close> inside the \<^verbatim>\<open>try\<close> of line 819.\<close>

definition sse_respond :: "nat \<Rightarrow> jsonrpc \<Rightarrow> sse_outcome" where
  "sse_respond status response =
     (if rpc_renderable response then JSONResponse status response
      else sse_internal_error (response_id response))"

text \<open>
  When the body is not a dict, \<^verbatim>\<open>body.get("method")\<close> raises, and the handler of line 953
  raises again at \<^verbatim>\<open>body.get("id")\<close>. The tools/list branch (lines 866 to 878) puts the cached
  tool dicts into the result as they are.
\<close>

definition handle_mcp_messages ::
  "(json \<Rightarrow> string) \<Rightarrow> (json \<Rightarrow> tool list option) \<Rightarrow> config \<Rightarrow> (http_call \<Rightarrow> reply) \<Rightarrow> request \<Rightarrow> body \<Rightarrow> server \<Rightarrow> sse_outcome \<times> server" where
  "handle_mcp_messages repr synthesize cfg upstream http_request b s =
     (case b of
        Json (JObj body) \<Rightarrow>
          (let method = get_default body ''method'' JNull;
               request_id = get_default body ''id'' JNull;
               token = extract_token http_request
           in if \<not> truthy token then (Raise (HTTPException 401 ''Token required''), s)
              else if method = JStr ''initialize'' then
                (sse_respond 200 (Response request_id
                   (JObj [(''protocolVersion'', JStr ''2024-11-05''),
                          (''capabilities'', JObj [(''tools'', JObj []), (''resources'', JObj [])]),
                          (''serverInfo'', JObj [(''name'', JStr ''superior-apis-mcp-v4-universal''),
                                                 (''version'', JStr ''4.0.0'')])])), s)
              else if method = JStr ''notifications/initialized'' then (NoContent, s)
              else if method = JStr ''tools/list'' then
                (case fetch_superior_apis_tools synthesize cfg upstream token s of
                   (tools, s') \<Rightarrow>
                     (sse_respond 200 (Response request_id (JObj [(''tools'', JArr (map tool_json tools))])), s'))
              else if method = JStr ''tools/call'' then
                (case get_default body ''params'' (JObj []) of
                   JObj params \<Rightarrow>
                     (case call_superior_api_tool repr upstream (the token) (get_default params ''name'' JNull)
                             (get_default params ''arguments'' (JObj [])) s of
                        (result, s') \<Rightarrow>
                          if success result
                          then (sse_respond 200 (Response request_id
                                  (JObj [(''content'', JArr [JObj [(''type'', JStr ''text''),
                                                                   (''text'', JStr (content result))]])])), s')
                          else (sse_respond 200 (ErrorResponse request_id (- 32603)
                                  (case error result of
                                     None \<Rightarrow> Text [CHR 0xE5, CHR 0xB7, CHR 0xA5, CHR 0xE5, CHR 0x85, CHR 0xB7, CHR 0xE5, CHR 0x9F, CHR 0xB7, CHR 0xE8, CHR 0xA1, CHR 0x8C, CHR 0xE5, CHR 0xA4, CHR 0xB1, CHR 0xE6, CHR 0x95, CHR 0x97]
                                   | Some m \<Rightarrow> m)
                                  (Some (Data (JObj [(''status_code'', (case status_code result of
                                                                         None \<Rightarrow> JNull
                                                                       | Some c \<Rightarrow> JInt (int c))),
                                                     (''content'', JStr (content result))])))), s'))
                 | _ \<Rightarrow> (sse_internal_error request_id, s))
              else
                (sse_respond 400 (ErrorResponse request_id (- 32601)
                   (Text ([CHR 0xE6, CHR 0x96, CHR 0xB9, CHR 0xE6, CHR 0xB3, CHR 0x95, CHR 0xE4, CHR 0xB8, CHR 0x8D, CHR 0xE5, CHR 0xAD, CHR 0x98, CHR 0xE5, CHR 0x9C, CHR 0xA8] @ '': '' @ py_str repr method))
                   None), s))
      | Json _ \<Rightarrow> (Unhandled, s)
      | Undecodable \<Rightarrow> (sse_internal_error JNull, s)
      | _ \<Rightarrow>
          (JSONResponse 400 (ErrorResponse JNull (- 32700)
             (Text (''JSON '' @ [CHR 0xE8, CHR 0xA7, CHR 0xA3, CHR 0xE6, CHR 0x9E, CHR 0x90, CHR 0xE9, CHR 0x8C, CHR 0xAF, CHR 0xE8, CHR 0xAA, CHR 0xA4]))
             (Some ExceptionData)), s))"

section \<open>The Dify server\<close>

text \<open>The tool dict of lines 156 to 169 of \<^verbatim>\<open>dify_mcp_standalone.py\<close>; \<open>api_info\<close> is the key
  \<^verbatim>\<open>_api_info\<close>.\<close>

record api_info =
  url :: string
  api_method :: string
  plugin :: json
  api_original_spec :: json

record dify_tool =
  dify_name :: json
  dify_description :: json
  dify_parameters :: json
  dify_api_info :: api_info

definition SUPERIOR_API_BASE :: string where
  "SUPERIOR_API_BASE = ''https://superiorapis-creator.cteam.com.tw''"

definition PLUGINS_LIST_URL :: string where
  "PLUGINS_LIST_URL = SUPERIOR_API_BASE @ ''/manager/module/plugins/list_v3''"

definition CACHE_TTL :: real where
  "CACHE_TTL = 5 * 60"

text \<open>Lines 124 to 170, one operation; \<^verbatim>\<open>spec.get\<close> raises unless the spec is a dict.\<close>

definition dify_tool_of :: "(json \<Rightarrow> string) \<Rightarrow> json \<Rightarrow> json \<Rightarrow> string \<Rightarrow> string \<Rightarrow> (string \<times> json) list \<Rightarrow> dify_tool" where
  "dify_tool_of repr plugin_nm plugin_desc pth method spec =
     (let summary = get_default spec ''summary'' plugin_desc in
      \<lparr> dify_name = get_default spec ''operationId'' (JStr (method @ ''_'' @ py_str repr plugin_nm)),
        dify_description = summary,
        dify_parameters =
          (if py_lower method \<in> set [''post'', ''put'', ''patch'']
           then (case map_of spec ''requestBody'' of
                   Some rb \<Rightarrow> JObj [(''summary'', summary), (''requestBody'', rb)]
                 | None \<Rightarrow> JObj [(''summary'', summary)])
           else (case map_of spec ''parameters'' of
                   Some params_list \<Rightarrow>
                     JObj [(''summary'', summary),
                           (''parameters'', if params_list = JNull then JArr [] else params_list)]
                 | None \<Rightarrow> JObj [(''summary'', summary), (''parameters'', JArr [])])),
        dify_api_info = \<lparr> url = SUPERIOR_API_BASE @ pth, api_method = py_upper method,
                      plugin = plugin_nm, api_original_spec = JObj spec \<rparr> \<rparr>)"

text \<open>
  The loops of lines 121 to 171, inside the \<^verbatim>\<open>try\<close> of line 109. The flag is \<open>False\<close> when an
  exception was raised; the tools appended before it stay in the list.
\<close>

fun dify_methods ::
  "(json \<Rightarrow> string) \<Rightarrow> json \<Rightarrow> json \<Rightarrow> string \<Rightarrow> (string \<times> json) list \<Rightarrow> dify_tool list \<Rightarrow> dify_tool list \<times> bool" where
  "dify_methods repr plugin_nm plugin_desc pth [] tools = (tools, True)"
| "dify_methods repr plugin_nm plugin_desc pth (entry # rest) tools =
     (if py_lower (fst entry) \<in> set [''get'', ''post'', ''put'', ''delete'']
      then (case snd entry of
              JObj spec \<Rightarrow>
                dify_methods repr plugin_nm plugin_desc pth rest
                  (tools @ [dify_tool_of repr plugin_nm plugin_desc pth (fst entry) spec])
            | _ \<Rightarrow> (tools, False))
      else dify_methods repr plugin_nm plugin_desc pth rest tools)"

fun dify_paths ::
  "(json \<Rightarrow> string) \<Rightarrow> json \<Rightarrow> json \<Rightarrow> (string \<times> json) list \<Rightarrow> dify_tool list \<Rightarrow> dify_tool list \<times> bool" where
  "dify_paths repr plugin_nm plugin_desc [] tools = (tools, True)"
| "dify_paths repr plugin_nm plugin_desc (entry # rest) tools =
     (case snd entry of
        JObj methods \<Rightarrow>
          (case dify_methods repr plugin_nm plugin_desc (fst entry) methods tools of
             (tools', True) \<Rightarrow> dify_paths repr plugin_nm plugin_desc rest tools'
           | (tools', False) \<Rightarrow> (tools', False))
      | _ \<Rightarrow> (tools, False))"

text \<open>
  One plugin (lines 108 to 174). The handler of line 172 logs \<^verbatim>\<open>plugin_name\<close>: when the
  exception came before the first assignment to that variable, the handler raises
  \<^verbatim>\<open>NameError\<close> and the whole fetch ends in the handler of line 184 (\<open>None\<close>). The state is the
  tool list and whether \<^verbatim>\<open>plugin_name\<close> is bound.
\<close>

definition dify_plugin ::
  "(json \<Rightarrow> string) \<Rightarrow> json \<Rightarrow> dify_tool list \<times> bool \<Rightarrow> (dify_tool list \<times> bool) option" where
  "dify_plugin repr plugin_item st =
     (case (case plugin_item of JObj d \<Rightarrow> py_items (get_default d ''plugin'' (JObj [])) | _ \<Rightarrow> None) of
        None \<Rightarrow> (if snd st then Some st else None)
      | Some p \<Rightarrow>
          (let plugin_nm = get_default p ''name_for_model'' (JStr ''unknown'');
               plugin_desc = get_default p ''description_for_model'' (JStr [])
           in case py_get (get_default p ''interface'' (JObj [])) ''paths'' (JObj []) of
                Some (JObj paths) \<Rightarrow> Some (fst (dify_paths repr plugin_nm plugin_desc paths (fst st)), True)
              | _ \<Rightarrow> Some (fst st, True)))"

definition dify_build :: "(json \<Rightarrow> string) \<Rightarrow> json \<Rightarrow> dify_tool list option" where
  "dify_build repr data = do {
     plugins \<leftarrow> py_index data ''plugins'';
     _ \<leftarrow> py_sized plugins;
     plugin_items \<leftarrow> py_iter plugins;
     st \<leftarrow> foldM (dify_plugin repr) plugin_items ([], False);
     Some (fst st)
   }"

text \<open>The module global \<^verbatim>\<open>tools_cache\<close>: per token the tool list and its timestamp.\<close>

record dify_server =
  dify_cache :: "string \<rightharpoonup> dify_tool list \<times> real"
  dify_sent :: "http_call list"

text \<open>
  \<^verbatim>\<open>fetch_superior_tools\<close>, lines 73 to 186. \<open>current_time\<close> is the reading of
  \<^verbatim>\<open>time.time()\<close> at line 76 and \<open>store_time\<close> the reading at line 179.
\<close>

definition fetch_superior_tools ::
  "(json \<Rightarrow> string) \<Rightarrow> (http_call \<Rightarrow> reply) \<Rightarrow> real \<Rightarrow> real \<Rightarrow> string \<Rightarrow> dify_server \<Rightarrow> dify_tool list \<times> dify_server" where
  "fetch_superior_tools repr upstream current_time store_time token s =
     (case (case dify_cache s token of
              Some cache_data \<Rightarrow> if current_time - snd cache_data < CACHE_TTL then Some (fst cache_data) else None
            | None \<Rightarrow> None) of
        Some tools \<Rightarrow> (tools, s)
      | None \<Rightarrow>
          let call = \<lparr> call_method = ''POST'', call_url = PLUGINS_LIST_URL,
                        call_headers = [(''token'', JStr token), (''Content-Type'', JStr ''application/json'')],
                        call_params = None, call_json = Some (JObj []) \<rparr>;
              s1 = s\<lparr> dify_cache := (dify_cache s)(token := None), dify_sent := dify_sent s @ [call] \<rparr>
          in (case upstream call of
                Reply status response_text parsed \<Rightarrow>
                  if status \<noteq> 200 then ([], s1)
                  else (case parsed of
                          None \<Rightarrow> ([], s1)
                        | Some data \<Rightarrow>
                            (case py_in ''plugins'' data of
                               Some True \<Rightarrow>
                                 (case dify_build repr data of
                                    None \<Rightarrow> ([], s1)
                                  | Some tools \<Rightarrow>
                                      (tools, s1\<lparr> dify_cache := (dify_cache s1)(token \<mapsto> (tools, store_time)) \<rparr>))
                             | _ \<Rightarrow> ([], s1)))
              | _ \<Rightarrow> ([], s1)))"







text \<open>The catalogue request of \<^verbatim>\<open>fetch_superior_apis_tools\<close> and of \<^verbatim>\<open>fetch_superior_tools\<close>,
  named for the statements below.\<close>

definition catalogue_call :: "config \<Rightarrow> string \<Rightarrow> http_call" where
  "catalogue_call cfg tok =
     \<lparr> call_method = ''POST'', call_url = plugins_list_url cfg,
       call_headers = [(''token'', JStr tok), (''Content-Type'', JStr ''application/json'')],
       call_params = None, call_json = Some (JObj []) \<rparr>"

definition dify_catalogue_call :: "string \<Rightarrow> http_call" where
  "dify_catalogue_call tok =
     \<lparr> call_method = ''POST'', call_url = PLUGINS_LIST_URL,
       call_headers = [(''token'', JStr tok), (''Content-Type'', JStr ''application/json'')],
       call_params = None, call_json = Some (JObj []) \<rparr>"

text \<open>The \<^verbatim>\<open>Authorization\<close> header as the HTTP and the SSE server read it (line 255 of
  \<^verbatim>\<open>mcp_server_http.py\<close>): the empty string when absent, every \<^verbatim>\<open>Bearer \<close> removed, then every
  \<^verbatim>\<open>bearer \<close>.\<close>

definition stripped_authorization :: "request \<Rightarrow> string" where
  "stripped_authorization r =
     py_replace ''bearer '' [] (py_replace ''Bearer '' []
       (case headers_get r ''Authorization'' of None \<Rightarrow> [] | Some a \<Rightarrow> a))"


section \<open>A catalogue with one operation\<close>

text \<open>The operation \<^verbatim>\<open>GET /forecast\<close> of a plugin \<^verbatim>\<open>weather\<close>, and the tool descriptor the
  HTTP and the SSE server hold for it with the base URL \<^verbatim>\<open>https://b\<close>.\<close>

definition forecast_spec :: json where
  "forecast_spec =
     JObj [(''operationId'', JStr ''get_forecast''),
           (''summary'', JStr ''Forecast for a city''),
           (''parameters'', JArr [JObj [(''name'', JStr ''city''), (''in'', JStr ''query''),
                                        (''required'', JBool True),
                                        (''schema'', JObj [(''type'', JStr ''string'')])]])]"

definition get_forecast :: tool where
  "get_forecast =
     \<lparr> name = JStr ''get_forecast'', description = JStr ''Forecast for a city'',
       inputSchema = JObj [(''type'', JStr ''object''),
                           (''properties'', JObj [(''city'', JObj [(''type'', JStr ''string''),
                                                                   (''description'', JStr [])])]),
                           (''required'', JArr [JStr ''city''])],
       meta = \<lparr> base_url = ''https://b'', path = ''/forecast'', meth = ''GET'',
                plugin_name = JStr ''weather'', original_spec = forecast_spec \<rparr> \<rparr>"

section \<open>Descriptors with path, query and header parameters\<close>






definition item_spec :: json where
  "item_spec =
     JObj [(''operationId'', JStr ''get_item''),
           (''parameters'', JArr [JObj [(''name'', JStr ''id''), (''in'', JStr ''path'')],
                                  JObj [(''name'', JStr ''lang'')],
                                  JObj [(''name'', JStr ''X-Trace''), (''in'', JStr ''header'')]])]"

definition dify_get_item :: dify_tool where
  "dify_get_item =
     \<lparr> dify_name = JStr ''get_item'', dify_description = JStr ''One item'',
       dify_parameters = JObj [(''summary'', JStr ''One item''),
                               (''parameters'', JArr [JObj [(''name'', JStr ''id''), (''in'', JStr ''path'')],
                                                      JObj [(''name'', JStr ''lang'')],
                                                      JObj [(''name'', JStr ''X-Trace''), (''in'', JStr ''header'')]])],
       dify_api_info = \<lparr> url = ''https://b/items/{id}'', api_method = ''GET'',
                         plugin = JStr ''shop'', api_original_spec = item_spec \<rparr> \<rparr>"


section \<open>Items of a batch\<close>




section \<open>The flatteners on a heap of dict objects\<close>

text \<open>
  Python passes dicts by reference, and \<^verbatim>\<open>schema.copy()\<close> copies one level only. To see what a
  caller that still holds the input observes, the dicts live in a heap: a value is a number, a
  string, a list, or a reference to a dict object, and the heap is the list of the dict objects,
  an object's address being its index. Lists are never updated by the flatteners and stay
  values. The model follows the source on every heap in which no dict object is reached along
  two paths, which is what parsing a JSON document yields; the iterator's check that the dict
  kept its size is written out, and never fails on such a heap.
\<close>

datatype pval =
    PNull
  | PBool bool
  | PInt int
  | PFloat pyfloat
  | PStr string
  | PList "pval list"
  | PRef nat

type_synonym heap = "(string \<times> pval) list list"

definition h_dict :: "heap \<Rightarrow> nat \<Rightarrow> (string \<times> pval) list" where
  "h_dict h a = (if a < length h then h ! a else [])"

definition h_set :: "heap \<Rightarrow> nat \<Rightarrow> string \<Rightarrow> pval \<Rightarrow> heap" where
  "h_set h a k v = h[a := AList.update k v (h_dict h a)]"

definition h_del :: "heap \<Rightarrow> nat \<Rightarrow> string \<Rightarrow> heap" where
  "h_del h a k = h[a := AList.delete k (h_dict h a)]"

text \<open>\<^verbatim>\<open>d.copy()\<close>: a new object with the same keys and the same values, references included.\<close>

definition h_copy :: "heap \<Rightarrow> nat \<Rightarrow> nat \<times> heap" where
  "h_copy h a = (length h, h @ [h_dict h a])"

datatype 'a outcome = Returns 'a | Raises | OutOfFuel

definition p_str :: "(heap \<Rightarrow> pval \<Rightarrow> string) \<Rightarrow> heap \<Rightarrow> pval \<Rightarrow> string" where
  "p_str hrepr h v = (case v of PStr s \<Rightarrow> s | _ \<Rightarrow> hrepr h v)"

definition p_iter :: "heap \<Rightarrow> pval \<Rightarrow> pval list option" where
  "p_iter h v = (case v of
      PList xs \<Rightarrow> Some xs
    | PRef e \<Rightarrow> Some (map (\<lambda>kv. PStr (fst kv)) (h_dict h e))
    | PStr s \<Rightarrow> Some (map PStr (utf8_chars s))
    | _ \<Rightarrow> None)"

text \<open>Lines 124 to 129 of \<^verbatim>\<open>mcp_server_sse.py\<close> on the object at address \<open>c\<close>.\<close>

definition sse_root_enum_heap :: "(heap \<Rightarrow> pval \<Rightarrow> string) \<Rightarrow> nat \<Rightarrow> heap \<Rightarrow> heap option" where
  "sse_root_enum_heap hrepr c h = (case map_of (h_dict h c) ''enum'' of
      None \<Rightarrow> Some h
    | Some enum_values \<Rightarrow>
        (case (case map_of (h_dict h c) ''description'' of
                 None \<Rightarrow> Some [] | Some (PStr s) \<Rightarrow> Some s | Some _ \<Rightarrow> None) of
           None \<Rightarrow> None
         | Some current_desc \<Rightarrow>
             (case p_iter h enum_values of
                None \<Rightarrow> None
              | Some vs \<Rightarrow>
                  Some (h_del (h_set h c ''description''
                                 (PStr (current_desc @ '' | Enum: '' @ join '', '' (map (p_str hrepr h) vs))))
                              c ''enum''))))"

text \<open>
  The loop of lines 133 and 134 of \<^verbatim>\<open>mcp_server_sse.py\<close> over the properties dict at address
  \<open>p\<close>, which the copy shares with the input: \<open>flatten\<close> is the recursive call, \<open>len\<close> the size of
  the dict when the iteration started and \<open>k\<close> the number of entries still to visit. Each step of
  the iterator raises when the dict has changed size, reads the live entry at its position and
  assigns the result of the recursive call under the same key of the same dict.
\<close>

fun sse_properties_loop ::
  "(pval \<Rightarrow> heap \<Rightarrow> (pval \<times> heap) outcome) \<Rightarrow> nat \<Rightarrow> nat \<Rightarrow> nat \<Rightarrow> heap \<Rightarrow> heap outcome" where
  "sse_properties_loop flatten p len 0 h =
     (if length (h_dict h p) = len then Returns h else Raises)"
| "sse_properties_loop flatten p len (Suc k) h =
     (if length (h_dict h p) = len
      then (case flatten (snd (h_dict h p ! (len - Suc k))) h of
              Returns (flat, h') \<Rightarrow>
                sse_properties_loop flatten p len k (h_set h' p (fst (h_dict h p ! (len - Suc k))) flat)
            | Raises \<Rightarrow> Raises
            | OutOfFuel \<Rightarrow> OutOfFuel)
      else Raises)"

text \<open>
  The body of \<^verbatim>\<open>flatten_enum\<close> of \<^verbatim>\<open>mcp_server_sse.py\<close> (lines 117 to 140), \<open>flatten\<close> being
  the recursive call: the copy of line 121 is the new object \<open>c\<close>, one level deep.
\<close>

definition sse_body ::
  "(pval \<Rightarrow> heap \<Rightarrow> (pval \<times> heap) outcome) \<Rightarrow> (heap \<Rightarrow> pval \<Rightarrow> string) \<Rightarrow> pval \<Rightarrow> heap
     \<Rightarrow> (pval \<times> heap) outcome" where
  "sse_body flatten hrepr schema h =
     (case schema of
        PRef a \<Rightarrow>
          (case h_copy h a of
             (c, h1) \<Rightarrow>
               (case sse_root_enum_heap hrepr c h1 of
                  None \<Rightarrow> Raises
                | Some h2 \<Rightarrow>
                    (case (case map_of (h_dict h2 c) ''properties'' of
                             None \<Rightarrow> Returns h2
                           | Some (PRef p) \<Rightarrow>
                               sse_properties_loop flatten p (length (h_dict h2 p)) (length (h_dict h2 p)) h2
                           | Some _ \<Rightarrow> Raises) of
                       Returns h3 \<Rightarrow>
                         (case map_of (h_dict h3 c) ''items'' of
                            None \<Rightarrow> Returns (PRef c, h3)
                          | Some items \<Rightarrow>
                              (case flatten items h3 of
                                 Returns (items', h4) \<Rightarrow> Returns (PRef c, h_set h4 c ''items'' items')
                               | Raises \<Rightarrow> Raises
                               | OutOfFuel \<Rightarrow> OutOfFuel))
                     | Raises \<Rightarrow> Raises
                     | OutOfFuel \<Rightarrow> OutOfFuel)))
      | _ \<Rightarrow> Returns (schema, h))"

text \<open>\<^verbatim>\<open>flatten_enum\<close> of \<^verbatim>\<open>mcp_server_sse.py\<close> on the heap, with fuel for the depth of the
  recursion.\<close>

primrec flatten_enum_sse_heap ::
  "nat \<Rightarrow> (heap \<Rightarrow> pval \<Rightarrow> string) \<Rightarrow> pval \<Rightarrow> heap \<Rightarrow> (pval \<times> heap) outcome" where
  "flatten_enum_sse_heap 0 hrepr = (\<lambda>schema h. OutOfFuel)"
| "flatten_enum_sse_heap (Suc n) hrepr = sse_body (flatten_enum_sse_heap n hrepr) hrepr"

text \<open>Lines 393 to 404 (and 378 to 386) of \<^verbatim>\<open>mcp_server_http.py\<close> on the property object at
  address \<open>q\<close>: the new description for an enum that is a dict or a list.\<close>

definition describe_enum_heap :: "(heap \<Rightarrow> pval \<Rightarrow> string) \<Rightarrow> heap \<Rightarrow> pval \<Rightarrow> pval \<Rightarrow> string option" where
  "describe_enum_heap hrepr h enum_val original_desc = (case enum_val of
      PRef e \<Rightarrow> Some (p_str hrepr h original_desc @ '' | Enum: '' @
                       join '', '' (map (\<lambda>kv. fst kv @ '': '' @ p_str hrepr h (snd kv)) (h_dict h e)))
    | PList xs \<Rightarrow> Some (p_str hrepr h original_desc @ enum_delim_list @ join '', '' (map (p_str hrepr h) xs))
    | _ \<Rightarrow> None)"

definition set_description_heap :: "(heap \<Rightarrow> pval \<Rightarrow> string) \<Rightarrow> pval \<Rightarrow> nat \<Rightarrow> heap \<Rightarrow> heap" where
  "set_description_heap hrepr enum_val q h =
     (case describe_enum_heap hrepr h enum_val
             (case map_of (h_dict h q) ''description'' of None \<Rightarrow> PStr [] | Some d \<Rightarrow> d) of
        None \<Rightarrow> h
      | Some s \<Rightarrow> h_set h q ''description'' (PStr s))"

definition prop_enum_heap :: "(heap \<Rightarrow> pval \<Rightarrow> string) \<Rightarrow> nat \<Rightarrow> heap \<Rightarrow> heap" where
  "prop_enum_heap hrepr q h = (case map_of (h_dict h q) ''enum'' of
      None \<Rightarrow> h
    | Some enum_val \<Rightarrow> h_del (set_description_heap hrepr enum_val q h) q ''enum'')"

text \<open>
  Lines 376 to 388 on the property object at address \<open>q\<close>: the value of \<^verbatim>\<open>items\<close> after the
  step (a fresh empty dict when the key is absent) and the heap.
\<close>

definition array_items_enum_heap ::
  "(heap \<Rightarrow> pval \<Rightarrow> string) \<Rightarrow> nat \<Rightarrow> heap \<Rightarrow> (pval \<times> heap) option" where
  "array_items_enum_heap hrepr q h =
     (case map_of (h_dict h q) ''items'' of
        None \<Rightarrow> Some (PRef (length h), h @ [ [] ])
      | Some (PRef it) \<Rightarrow>
          (case map_of (h_dict h it) ''enum'' of
             None \<Rightarrow> Some (PRef it, h)
           | Some enum_val \<Rightarrow> Some (PRef it, h_del (set_description_heap hrepr enum_val q h) it ''enum''))
      | Some (PList xs) \<Rightarrow> (if PStr ''enum'' \<in> set xs then None else Some (PList xs, h))
      | Some (PStr s) \<Rightarrow> (if sublist ''enum'' s then None else Some (PStr s, h))
      | Some _ \<Rightarrow> None)"

text \<open>
  The loop of lines 371 to 404 of \<^verbatim>\<open>mcp_server_http.py\<close> over the properties dict at address
  \<open>p\<close>: it works on the property objects of the input themselves. \<open>flatten\<close> is the recursive
  call, \<open>len\<close> and \<open>k\<close> are as in the loop above.
\<close>

fun http_properties_loop ::
  "(pval \<Rightarrow> heap \<Rightarrow> (pval \<times> heap) outcome) \<Rightarrow> (heap \<Rightarrow> pval \<Rightarrow> string) \<Rightarrow> nat \<Rightarrow> nat \<Rightarrow> nat \<Rightarrow> heap
     \<Rightarrow> heap outcome" where
  "http_properties_loop flatten hrepr p len 0 h =
     (if length (h_dict h p) = len then Returns h else Raises)"
| "http_properties_loop flatten hrepr p len (Suc k) h =
     (if length (h_dict h p) = len
      then (case snd (h_dict h p ! (len - Suc k)) of
              PRef q \<Rightarrow>
                (if map_of (h_dict h q) ''type'' = Some (PStr ''object'')
                 then (case flatten (PRef q) h of
                         Returns (flat, h') \<Rightarrow>
                           http_properties_loop flatten hrepr p len k
                             (prop_enum_heap hrepr q (h_set h' p (fst (h_dict h p ! (len - Suc k))) flat))
                       | Raises \<Rightarrow> Raises
                       | OutOfFuel \<Rightarrow> OutOfFuel)
                 else if map_of (h_dict h q) ''type'' = Some (PStr ''array'')
                 then (case array_items_enum_heap hrepr q h of
                         None \<Rightarrow> Raises
                       | Some (PRef it, h1) \<Rightarrow>
                           (case flatten (PRef it) h1 of
                              Returns (flat, h') \<Rightarrow>
                                http_properties_loop flatten hrepr p len k
                                  (prop_enum_heap hrepr q (h_set h' q ''items'' flat))
                            | Raises \<Rightarrow> Raises
                            | OutOfFuel \<Rightarrow> OutOfFuel)
                       | Some (_, h1) \<Rightarrow>
                           http_properties_loop flatten hrepr p len k (prop_enum_heap hrepr q h1))
                 else http_properties_loop flatten hrepr p len k (prop_enum_heap hrepr q h))
            | _ \<Rightarrow> Raises)
      else Raises)"

text \<open>The body of \<^verbatim>\<open>flatten_enum\<close> of \<^verbatim>\<open>mcp_server_http.py\<close> (lines 359 to 406).\<close>

definition http_body ::
  "(pval \<Rightarrow> heap \<Rightarrow> (pval \<times> heap) outcome) \<Rightarrow> (heap \<Rightarrow> pval \<Rightarrow> string) \<Rightarrow> pval \<Rightarrow> heap
     \<Rightarrow> (pval \<times> heap) outcome" where
  "http_body flatten hrepr schema h =
     (case schema of
        PRef a \<Rightarrow>
          (case h_copy h a of
             (c, h1) \<Rightarrow>
               (case map_of (h_dict h1 c) ''properties'' of
                  None \<Rightarrow> Returns (PRef c, h1)
                | Some (PRef p) \<Rightarrow>
                    (case http_properties_loop flatten hrepr p (length (h_dict h1 p)) (length (h_dict h1 p)) h1 of
                       Returns h2 \<Rightarrow> Returns (PRef c, h2)
                     | Raises \<Rightarrow> Raises
                     | OutOfFuel \<Rightarrow> OutOfFuel)
                | Some _ \<Rightarrow> Raises))
      | _ \<Rightarrow> Returns (schema, h))"

text \<open>\<^verbatim>\<open>flatten_enum\<close> of \<^verbatim>\<open>mcp_server_http.py\<close> on the heap, with fuel for the depth of the
  recursion.\<close>

primrec flatten_enum_http_heap ::
  "nat \<Rightarrow> (heap \<Rightarrow> pval \<Rightarrow> string) \<Rightarrow> pval \<Rightarrow> heap \<Rightarrow> (pval \<times> heap) outcome" where
  "flatten_enum_http_heap 0 hrepr = (\<lambda>schema h. OutOfFuel)"
| "flatten_enum_http_heap (Suc n) hrepr = http_body (flatten_enum_http_heap n hrepr) hrepr"

text \<open>The JSON value a holder of \<open>v\<close> sees in the heap \<open>h\<close>, the fuel bounding the nesting depth
  (\<open>None\<close>: out of fuel).\<close>

fun read_json :: "nat \<Rightarrow> heap \<Rightarrow> pval \<Rightarrow> json option"
  and read_list :: "nat \<Rightarrow> heap \<Rightarrow> pval list \<Rightarrow> json list option"
  and read_dict :: "nat \<Rightarrow> heap \<Rightarrow> (string \<times> pval) list \<Rightarrow> (string \<times> json) list option" where
  "read_json 0 h v = None"
| "read_json (Suc n) h v = (case v of
      PNull \<Rightarrow> Some JNull
    | PBool b \<Rightarrow> Some (JBool b)
    | PInt i \<Rightarrow> Some (JInt i)
    | PFloat x \<Rightarrow> Some (JFloat x)
    | PStr s \<Rightarrow> Some (JStr s)
    | PList xs \<Rightarrow> map_option JArr (read_list n h xs)
    | PRef a \<Rightarrow> map_option JObj (read_dict n h (h_dict h a)))"
| "read_list n h [] = Some []"
| "read_list n h (x # xs) =
     (case read_json n h x of None \<Rightarrow> None
      | Some j \<Rightarrow> map_option ((#) j) (read_list n h xs))"
| "read_dict n h [] = Some []"
| "read_dict n h (kv # d) =
     (case read_json n h (snd kv) of None \<Rightarrow> None
      | Some j \<Rightarrow> map_option ((#) (fst kv, j)) (read_dict n h d))"

definition mode_heap :: heap where
  "mode_heap =
     [ [(''type'', PStr ''object''), (''properties'', PRef 1)],
      [(''mode'', PRef 2)],
      [(''type'', PStr ''string''), (''enum'', PList [PStr ''a'', PStr ''b'']), (''description'', PStr ''mode'')] ]"

definition mode_schema :: json where
  "mode_schema =
     JObj [(''type'', JStr ''object''),
           (''properties'', JObj [(''mode'',
              JObj [(''type'', JStr ''string''), (''enum'', JArr [JStr ''a'', JStr ''b'']),
                    (''description'', JStr ''mode'')])])]"

section \<open>Properties of the flatteners\<close>

lemma map_values_idem:
  assumes "\<And>v t. v \<in> snd ` set ps \<Longrightarrow> f v = Some t \<Longrightarrow> f t = Some t"
    and "map_values f ps = Some ps'"
  shows "map_values f ps' = Some ps'"
  using assms
proof (induction ps arbitrary: ps')
  case Nil
  then show ?case by simp
next
  case (Cons kv ps)
  from Cons.prems(2) obtain w qs where w: "f (snd kv) = Some w" and qs: "map_values f ps = Some qs"
    and ps': "ps' = (fst kv, w) # qs"
    by (auto split: bind_splits)
  have "f w = Some w" using Cons.prems(1)[OF _ w] by simp
  moreover have "map_values f qs = Some qs"
    using Cons.IH[OF _ qs] Cons.prems(1) by auto
  ultimately show ?case using ps' by simp
qed

lemma sse_root_enum_no_enum:
  "sse_root_enum repr d = Some d1 \<Longrightarrow> map_of d1 ''enum'' = None"
  by (auto simp: sse_root_enum_def delete_conv' split: option.splits bind_splits)

lemma sse_root_enum_fixed:
  "map_of d ''enum'' = None \<Longrightarrow> sse_root_enum repr d = Some d"
  by (simp add: sse_root_enum_def)

lemma map_of_store:
  "map_of (store k vo d) k' = (if k' = k then (case vo of None \<Rightarrow> map_of d k | Some v \<Rightarrow> Some v) else map_of d k')"
  by (cases vo) (auto simp: update_conv')

lemma store_same: "store k (map_of d k) d = d"
  by (cases "map_of d k") (simp_all add: update_triv)

lemma flatten_enum_sse_idem:
  "flatten_enum_sse repr s = Some t \<Longrightarrow> flatten_enum_sse repr t = Some t"
proof (induction repr s arbitrary: t rule: flatten_enum_sse.induct)
  case (1 repr d)
  from "1.prems" obtain d1 where d1: "sse_root_enum repr d = Some d1"
    by (auto split: option.splits)
  define pr where "pr = (case map_of d1 ''properties'' of
               None \<Rightarrow> Some None
             | Some (JObj props) \<Rightarrow> map_option Some (map_values (flatten_enum_sse repr) props)
             | Some _ \<Rightarrow> None)"
  define ir where "ir = (case map_of d1 ''items'' of
               None \<Rightarrow> Some None
             | Some items \<Rightarrow> map_option Some (flatten_enum_sse repr items))"
  from "1.prems" d1 have asg: "sse_assign d1 pr ir = Some t"
    by (simp add: pr_def ir_def)
  then obtain p i where p: "pr = Some p" and i: "ir = Some i"
    and t: "t = JObj (store ''items'' i (store ''properties'' (map_option JObj p) d1))"
    by (auto simp: sse_assign_def split: bind_splits)
  define d3 where "d3 = store ''items'' i (store ''properties'' (map_option JObj p) d1)"
  have no_enum: "map_of d3 ''enum'' = None"
    using sse_root_enum_no_enum[OF d1] by (simp add: d3_def map_of_store)
  hence root: "sse_root_enum repr d3 = Some d3" by (rule sse_root_enum_fixed)
  have props: "(case map_of d3 ''properties'' of
               None \<Rightarrow> Some None
             | Some (JObj props) \<Rightarrow> map_option Some (map_values (flatten_enum_sse repr) props)
             | Some _ \<Rightarrow> None) = Some (case map_of d3 ''properties'' of Some (JObj props) \<Rightarrow> Some props | _ \<Rightarrow> None)"
  proof (cases "map_of d1 ''properties''")
    case None
    with p have "p = None" by (simp add: pr_def)
    with None show ?thesis by (simp add: d3_def map_of_store)
  next
    case (Some pv)
    with p obtain props props' where pv: "pv = JObj props"
      and mv: "map_values (flatten_enum_sse repr) props = Some props'" and p': "p = Some props'"
      by (auto simp: pr_def split: json.splits)
    have "map_values (flatten_enum_sse repr) props' = Some props'"
      using map_values_idem[OF _ mv] "1.IH"(1)[OF d1 Some pv] by blast
    moreover have "map_of d3 ''properties'' = Some (JObj props')"
      by (simp add: d3_def map_of_store p' update_conv')
    ultimately show ?thesis by simp
  qed
  have items: "(case map_of d3 ''items'' of
               None \<Rightarrow> Some None
             | Some items \<Rightarrow> map_option Some (flatten_enum_sse repr items)) = Some (map_of d3 ''items'')"
  proof (cases "map_of d1 ''items''")
    case None
    with i have "i = None" by (simp add: ir_def)
    with None show ?thesis by (simp add: d3_def map_of_store split: option.splits)
  next
    case (Some it)
    with i obtain it' where it': "flatten_enum_sse repr it = Some it'" and i': "i = Some it'"
      by (auto simp: ir_def)
    have "flatten_enum_sse repr it' = Some it'"
      using "1.IH"(2)[OF d1 Some it'] .
    moreover have "map_of d3 ''items'' = Some it'"
      by (simp add: d3_def map_of_store i' update_conv')
    ultimately show ?thesis by simp
  qed
  have same: "store ''items'' (map_of d3 ''items'')
          (store ''properties'' (map_option JObj (case map_of d3 ''properties'' of Some (JObj props) \<Rightarrow> Some props | _ \<Rightarrow> None)) d3) = d3"
    by (auto simp: update_triv store_same split: option.splits json.splits)
  have "flatten_enum_sse repr (JObj d3) = Some (JObj d3)"
    by (simp add: root props items sse_assign_def same)
  then show ?case by (simp add: t d3_def)
qed simp_all

lemma flatten_enum_http_keys:
  assumes "flatten_enum_http repr (JObj d) = Some t"
  obtains d' where "t = JObj d'" "\<And>k. k \<noteq> ''properties'' \<Longrightarrow> map_of d' k = map_of d k"
  using assms unfolding flatten_enum_http_unfold
  by (auto split: option.splits json.splits simp: update_conv')

lemma map_of_set_description:
  "k \<noteq> ''description'' \<Longrightarrow> map_of (set_description repr ev pd) k = map_of pd k"
  by (auto simp: set_description_def update_conv' split: option.splits)

lemma map_of_prop_enum:
  "k \<noteq> ''description'' \<Longrightarrow> k \<noteq> ''enum'' \<Longrightarrow> map_of (prop_enum repr pd) k = map_of pd k"
  by (auto simp: prop_enum_def delete_conv' map_of_set_description split: option.splits)

lemma prop_enum_no_enum: "map_of (prop_enum repr pd) ''enum'' = None"
  by (auto simp: prop_enum_def delete_conv' split: option.splits)

lemma prop_enum_fixed: "map_of pd ''enum'' = None \<Longrightarrow> prop_enum repr pd = pd"
  by (simp add: prop_enum_def)

lemma array_items_enum_keys:
  "array_items_enum repr pd = Some pd2 \<Longrightarrow> k \<noteq> ''description'' \<Longrightarrow> k \<noteq> ''items'' \<Longrightarrow>
   map_of pd2 k = map_of pd k"
  by (auto simp: array_items_enum_def Let_def update_conv' map_of_set_description
           split: option.splits bool.splits json.splits)

lemma array_items_enum_result:
  assumes "array_items_enum repr pd = Some pd2"
  shows "py_in ''enum'' (get_default pd2 ''items'' (JObj [])) = Some False"
  using assms
  by (auto simp: array_items_enum_def Let_def update_conv' get_default_def py_in_def delete_conv'
           split: option.splits bool.splits json.splits)

lemma array_items_enum_fixed:
  "py_in ''enum'' (get_default pd ''items'' (JObj [])) = Some False \<Longrightarrow> array_items_enum repr pd = Some pd"
  by (simp add: array_items_enum_def Let_def)

lemma get_default_prop_enum:
  "k \<noteq> ''description'' \<Longrightarrow> k \<noteq> ''enum'' \<Longrightarrow> get_default (prop_enum repr pd) k dflt = get_default pd k dflt"
  by (simp add: get_default_def map_of_prop_enum)

lemma http_prop_idem:
  assumes obj: "\<And>t. map_of pd ''type'' = Some (JStr ''object'') \<Longrightarrow>
                 flatten_enum_http repr (JObj pd) = Some t \<Longrightarrow> flatten_enum_http repr t = Some t"
    and arr: "\<And>pd2 idict t. map_of pd ''type'' \<noteq> Some (JStr ''object'') \<Longrightarrow>
                 map_of pd ''type'' = Some (JStr ''array'') \<Longrightarrow>
                 array_items_enum repr pd = Some pd2 \<Longrightarrow>
                 get_default pd2 ''items'' (JObj []) = JObj idict \<Longrightarrow>
                 flatten_enum_http repr (JObj idict) = Some t \<Longrightarrow> flatten_enum_http repr t = Some t"
    and step: "http_prop repr (JObj pd) = Some t"
  shows "http_prop repr t = Some t"
proof -
  consider (object) "map_of pd ''type'' = Some (JStr ''object'')"
    | (array) "map_of pd ''type'' \<noteq> Some (JStr ''object'')" "map_of pd ''type'' = Some (JStr ''array'')"
    | (other) "map_of pd ''type'' \<noteq> Some (JStr ''object'')" "map_of pd ''type'' \<noteq> Some (JStr ''array'')"
    by blast
  then show ?thesis
  proof cases
    case object
    with step have fl: "flatten_enum_http repr (JObj pd) = Some t" by (simp add: http_prop_def)
    from flatten_enum_http_keys[OF fl] obtain pd' where
      t: "t = JObj pd'" and keys: "\<And>k. k \<noteq> ''properties'' \<Longrightarrow> map_of pd' k = map_of pd k"
      by blast
    have "map_of pd' ''type'' = Some (JStr ''object'')" using keys object by simp
    then show ?thesis using obj[OF object fl] by (simp add: http_prop_def t)
  next
    case array
    from step array obtain pd2 where pd2: "array_items_enum repr pd = Some pd2"
      by (auto simp: http_prop_def split: option.splits)
    have in2: "py_in ''enum'' (get_default pd2 ''items'' (JObj [])) = Some False"
      by (rule array_items_enum_result[OF pd2])
    have ty2: "map_of pd2 ''type'' = map_of pd ''type''"
      by (rule array_items_enum_keys[OF pd2]) simp_all
    show ?thesis
    proof (cases "\<exists>idict. get_default pd2 ''items'' (JObj []) = JObj idict")
      case True
      then obtain idict where idict: "get_default pd2 ''items'' (JObj []) = JObj idict" by blast
      with step array pd2 obtain items' where
        fl: "flatten_enum_http repr (JObj idict) = Some items'"
        and t: "t = JObj (prop_enum repr (AList.update ''items'' items' pd2))"
        by (auto simp: http_prop_def)
      define pd4 where "pd4 = prop_enum repr (AList.update ''items'' items' pd2)"
      from flatten_enum_http_keys[OF fl] obtain idict' where
        items': "items' = JObj idict'" and keys: "\<And>k. k \<noteq> ''properties'' \<Longrightarrow> map_of idict' k = map_of idict k"
        by blast
      have "map_of idict ''enum'' = None" using in2 idict by (simp add: py_in_def)
      hence ne: "map_of idict' ''enum'' = None" using keys by simp
      have ty4: "map_of pd4 ''type'' = map_of pd ''type''"
        by (simp add: pd4_def map_of_prop_enum update_conv' ty2)
      have it4: "map_of pd4 ''items'' = Some items'"
        by (simp add: pd4_def map_of_prop_enum update_conv')
      hence gd4: "get_default pd4 ''items'' (JObj []) = JObj idict'"
        by (simp add: get_default_def items')
      have a4: "array_items_enum repr pd4 = Some pd4"
        by (rule array_items_enum_fixed) (simp add: gd4 py_in_def ne)
      have fl2: "flatten_enum_http repr (JObj idict') = Some (JObj idict')"
        using arr[OF array pd2 idict fl] items' by simp
      have "AList.update ''items'' (JObj idict') pd4 = pd4"
        using it4 items' by (simp add: update_triv)
      moreover have "prop_enum repr pd4 = pd4"
        by (rule prop_enum_fixed) (simp add: pd4_def prop_enum_no_enum)
      ultimately have "http_prop repr (JObj pd4) = Some (JObj pd4)"
        using array ty4 a4 gd4 fl2 by (simp add: http_prop_def)
      then show ?thesis by (simp add: t pd4_def)
    next
      case False
      with step array pd2 have t: "t = JObj (prop_enum repr pd2)"
        by (auto simp: http_prop_def split: json.splits)
      define pd4 where "pd4 = prop_enum repr pd2"
      have ty4: "map_of pd4 ''type'' = map_of pd ''type''"
        by (simp add: pd4_def map_of_prop_enum ty2)
      have gd4: "get_default pd4 ''items'' (JObj []) = get_default pd2 ''items'' (JObj [])"
        by (simp add: pd4_def get_default_prop_enum)
      have a4: "array_items_enum repr pd4 = Some pd4"
        by (rule array_items_enum_fixed) (simp add: gd4 in2)
      have "prop_enum repr pd4 = pd4"
        by (rule prop_enum_fixed) (simp add: pd4_def prop_enum_no_enum)
      then have "http_prop repr (JObj pd4) = Some (JObj pd4)"
        using array ty4 a4 gd4 False by (auto simp: http_prop_def split: json.splits)
      then show ?thesis by (simp add: t pd4_def)
    qed
  next
    case other
    with step have t: "t = JObj (prop_enum repr pd)" by (auto simp: http_prop_def)
    have "map_of (prop_enum repr pd) ''type'' = map_of pd ''type''"
      by (simp add: map_of_prop_enum)
    moreover have "prop_enum repr (prop_enum repr pd) = prop_enum repr pd"
      by (rule prop_enum_fixed) (rule prop_enum_no_enum)
    ultimately show ?thesis using other by (simp add: http_prop_def t)
  qed
qed

lemma flatten_enum_http_idem:
  "flatten_enum_http repr s = Some t \<Longrightarrow> flatten_enum_http repr t = Some t"
proof (induction repr s arbitrary: t rule: flatten_enum_http.induct)
  case (1 repr d)
  show ?case
  proof (cases "map_of d ''properties''")
    case None
    with "1.prems" show ?thesis by (auto simp: flatten_enum_http_unfold)
  next
    case (Some pv)
    with "1.prems" obtain props props' where pv: "pv = JObj props"
      and mv: "map_values (http_prop repr) props = Some props'"
      and t: "t = JObj (AList.update ''properties'' (JObj props') d)"
      by (auto simp: flatten_enum_http_unfold split: json.splits)
    have elem: "http_prop repr v' = Some v'" if v: "v \<in> snd ` set props" and st: "http_prop repr v = Some v'" for v v'
    proof -
      from st obtain pd where pd: "v = JObj pd" by (auto simp: http_prop_def split: json.splits)
      show ?thesis
      proof (rule http_prop_idem[of pd repr v'])
        fix t assume "map_of pd ''type'' = Some (JStr ''object'')" "flatten_enum_http repr (JObj pd) = Some t"
        then show "flatten_enum_http repr t = Some t"
          using "1.IH"(1)[OF Some pv v pd] by blast
      next
        fix pd2 idict t
        assume "map_of pd ''type'' \<noteq> Some (JStr ''object'')" "map_of pd ''type'' = Some (JStr ''array'')"
          "array_items_enum repr pd = Some pd2" "get_default pd2 ''items'' (JObj []) = JObj idict"
          "flatten_enum_http repr (JObj idict) = Some t"
        then show "flatten_enum_http repr t = Some t"
          using "1.IH"(2)[OF Some pv v pd] by blast
      next
        show "http_prop repr (JObj pd) = Some v'" using st pd by simp
      qed
    qed
    have "map_values (http_prop repr) props' = Some props'"
      using map_values_idem[OF _ mv] elem by blast
    then show ?thesis
      by (simp add: t flatten_enum_http_unfold update_conv' update_triv)
  qed
qed simp_all

section \<open>Claims about the schema flattener\<close>

text \<open>
  C5. Both flatteners are idempotent: flattening the result of a flattening returns that result
  unchanged. \<^const>\<open>Option.bind\<close> is the composition \<^verbatim>\<open>flatten(flatten(s))\<close>; where
  \<^verbatim>\<open>flatten(s)\<close> raises, so does the composition.
\<close>

theorem C5_flatten_idempotent:
  "Option.bind (flatten_enum_http repr s) (flatten_enum_http repr) = flatten_enum_http repr s \<and>
   Option.bind (flatten_enum_sse repr s) (flatten_enum_sse repr) = flatten_enum_sse repr s"
proof
  show "Option.bind (flatten_enum_http repr s) (flatten_enum_http repr) = flatten_enum_http repr s"
    by (cases "flatten_enum_http repr s") (simp_all add: flatten_enum_http_idem)
  show "Option.bind (flatten_enum_sse repr s) (flatten_enum_sse repr) = flatten_enum_sse repr s"
    by (cases "flatten_enum_sse repr s") (simp_all add: flatten_enum_sse_idem)
qed

text \<open>
  The theorem at a schema with an enum on a string property, on the items of an array property
  and on a nested object: both flatteners return a value, and return it again when applied to it.
\<close>

theorem C5_flatten_idempotent_witness:
  "(\<exists>t. flatten_enum_http (\<lambda>_. ''?'')
          (JObj [(''type'', JStr ''object''),
                 (''properties'', JObj
                    [(''mode'', JObj [(''type'', JStr ''string''), (''enum'', JArr [JStr ''a'', JStr ''b''])]),
                     (''tags'', JObj [(''type'', JStr ''array''),
                                      (''items'', JObj [(''type'', JStr ''string''), (''enum'', JArr [JStr ''x'']) ])]),
                     (''sub'', JObj [(''type'', JStr ''object''),
                                     (''properties'', JObj [(''k'', JObj [(''enum'', JObj [(''a'', JInt 1)])])])])])]) = Some t
        \<and> flatten_enum_http (\<lambda>_. ''?'') t = Some t
        \<and> map_of (case t of JObj d \<Rightarrow> (case map_of d ''properties'' of Some (JObj ps) \<Rightarrow> ps | _ \<Rightarrow> []) | _ \<Rightarrow> []) ''mode''
            = Some (JObj [(''type'', JStr ''string''),
                          (''description'', JStr ('' | '' @ [CHR 0xE9, CHR 0x81, CHR 0xB8, CHR 0xE9, CHR 0xA0, CHR 0x85] @ '': a, b''))]))
   \<and> (\<exists>t. flatten_enum_sse (\<lambda>_. ''?'')
          (JObj [(''type'', JStr ''object''),
                 (''properties'', JObj
                    [(''mode'', JObj [(''type'', JStr ''string''), (''enum'', JArr [JStr ''a'', JStr ''b''])])]),
                 (''items'', JObj [(''enum'', JArr [JInt 1])])]) = Some t
        \<and> flatten_enum_sse (\<lambda>_. ''?'') t = Some t
        \<and> t = JObj [(''type'', JStr ''object''),
                 (''properties'', JObj
                    [(''mode'', JObj [(''type'', JStr ''string''), (''description'', JStr '' | Enum: a, b'')])]),
                 (''items'', JObj [(''description'', JStr '' | Enum: ?'')])])"
proof -
  let ?r = "\<lambda>_::json. ''?''"
  let ?h = "JObj [(''type'', JStr ''object''),
                 (''properties'', JObj
                    [(''mode'', JObj [(''type'', JStr ''string''), (''enum'', JArr [JStr ''a'', JStr ''b''])]),
                     (''tags'', JObj [(''type'', JStr ''array''),
                                      (''items'', JObj [(''type'', JStr ''string''), (''enum'', JArr [JStr ''x'']) ])]),
                     (''sub'', JObj [(''type'', JStr ''object''),
                                     (''properties'', JObj [(''k'', JObj [(''enum'', JObj [(''a'', JInt 1)])])])])])]"
  let ?s = "JObj [(''type'', JStr ''object''),
                 (''properties'', JObj
                    [(''mode'', JObj [(''type'', JStr ''string''), (''enum'', JArr [JStr ''a'', JStr ''b''])])]),
                 (''items'', JObj [(''enum'', JArr [JInt 1])])]"
  have h: "flatten_enum_http ?r ?h = Some (JObj [(''type'', JStr ''object''),
                 (''properties'', JObj
                    [(''mode'', JObj [(''type'', JStr ''string''),
                        (''description'', JStr ('' | '' @ [CHR 0xE9, CHR 0x81, CHR 0xB8, CHR 0xE9, CHR 0xA0, CHR 0x85] @ '': a, b''))]),
                     (''tags'', JObj [(''type'', JStr ''array''),
                                      (''items'', JObj [(''type'', JStr ''string'')]),
                                      (''description'', JStr ('' | '' @ [CHR 0xE9, CHR 0x81, CHR 0xB8, CHR 0xE9, CHR 0xA0, CHR 0x85] @ '': x''))]),
                     (''sub'', JObj [(''type'', JStr ''object''),
                                     (''properties'', JObj [(''k'', JObj [(''description'', JStr '' | Enum: a: ?'')])])])])])"
    by code_simp
  have s: "flatten_enum_sse ?r ?s = Some (JObj [(''type'', JStr ''object''),
                 (''properties'', JObj
                    [(''mode'', JObj [(''type'', JStr ''string''), (''description'', JStr '' | Enum: a, b'')])]),
                 (''items'', JObj [(''description'', JStr '' | Enum: ?'')])])"
    by code_simp
  from C5_flatten_idempotent[of ?r ?h] h C5_flatten_idempotent[of ?r ?s] s
  show ?thesis by simp
qed

text \<open>
  C7 (as amended). In the HTTP server a property
  \<^verbatim>\<open>{"type":"string","enum":["a","b"],"description":"mode"}\<close> of an object schema is rewritten
  to \<^verbatim>\<open>{"type":"string","description":"mode | XX: a, b"}\<close> (\<^verbatim>\<open>XX\<close>: the characters U+9078 U+9805),
  with no \<^verbatim>\<open>enum\<close> key left, while the same dict passed as the schema itself is returned as it
  is. The SSE server's flattener renders the same property as
  \<^verbatim>\<open>{"type":"string","description":"mode | Enum: a, b"}\<close>.
\<close>

theorem C7_enum_example:
  "flatten_enum_http repr
     (JObj [(''type'', JStr ''object''),
            (''properties'', JObj [(''p'',
               JObj [(''type'', JStr ''string''), (''enum'', JArr [JStr ''a'', JStr ''b'']),
                     (''description'', JStr ''mode'')])])])
   = Some (JObj [(''type'', JStr ''object''),
            (''properties'', JObj [(''p'',
               JObj [(''type'', JStr ''string''),
                     (''description'',
                      JStr (''mode | '' @ [CHR 0xE9, CHR 0x81, CHR 0xB8, CHR 0xE9, CHR 0xA0, CHR 0x85] @ '': a, b''))])])])
   \<and> flatten_enum_http repr
     (JObj [(''type'', JStr ''string''), (''enum'', JArr [JStr ''a'', JStr ''b'']),
            (''description'', JStr ''mode'')])
   = Some (JObj [(''type'', JStr ''string''), (''enum'', JArr [JStr ''a'', JStr ''b'']),
            (''description'', JStr ''mode'')])
   \<and> flatten_enum_sse repr
     (JObj [(''type'', JStr ''string''), (''enum'', JArr [JStr ''a'', JStr ''b'']),
            (''description'', JStr ''mode'')])
   = Some (JObj [(''type'', JStr ''string''), (''description'', JStr ''mode | Enum: a, b'')])"
  by (simp add: flatten_enum_http_unfold http_prop_def prop_enum_def set_description_def
        describe_enum_def get_default_def py_str_def enum_delim_list_def
        sse_root_enum_def py_iter_def sse_assign_def)

text \<open>
  The claim as stated fails for the SSE server's flattener: its result is not the dict with the
  description \<^verbatim>\<open>"mode | XX: a, b"\<close>.
\<close>

theorem C7_enum_example_counterexample:
  "flatten_enum_sse (\<lambda>_. [])
     (JObj [(''type'', JStr ''string''), (''enum'', JArr [JStr ''a'', JStr ''b'']),
            (''description'', JStr ''mode'')])
   \<noteq> Some (JObj [(''type'', JStr ''string''),
            (''description'',
             JStr (''mode | '' @ [CHR 0xE9, CHR 0x81, CHR 0xB8, CHR 0xE9, CHR 0xA0, CHR 0x85] @ '': a, b''))])"
  by (simp add: sse_root_enum_def py_iter_def sse_assign_def py_str_def)

section \<open>Claims about the credential\<close>

lemma headers_get_TOKEN: "headers_get r ''TOKEN'' = headers_get r ''token''"
proof -
  have "py_lower ''TOKEN'' = py_lower ''token''" by code_simp
  then show ?thesis by (simp add: headers_get_def)
qed

text \<open>
  C8 (as amended). The order of the sources differs between the servers.

  The Dify server takes a non-empty \<^verbatim>\<open>token\<close> header first; failing that, an
  \<^verbatim>\<open>Authorization\<close> header that starts with \<^verbatim>\<open>Bearer \<close>, the token being the rest of the header
  even when the rest is empty; failing that, a non-empty \<^verbatim>\<open>token\<close> query parameter; failing
  that, it raises the HTTP error 401.

  The HTTP and the SSE server take the first non-empty value among the \<^verbatim>\<open>token\<close> query
  parameter, the \<^verbatim>\<open>token\<close> header, the \<^verbatim>\<open>Authorization\<close> header with every \<^verbatim>\<open>Bearer \<close> and
  \<^verbatim>\<open>bearer \<close> removed, the \<^verbatim>\<open>X-API-Key\<close> header and the \<^verbatim>\<open>api-key\<close> header, in this order;
  when none is non-empty the result is what the \<^verbatim>\<open>api-key\<close> header gives, which is then no
  credential.
\<close>

theorem C8_precedence:
  "(truthy (headers_get r ''token'') \<longrightarrow> extract_token_dify r = Inr (the (headers_get r ''token'')))
   \<and> (\<not> truthy (headers_get r ''token'') \<and> headers_get r ''Authorization'' = Some (''Bearer '' @ t)
        \<longrightarrow> extract_token_dify r = Inr t)
   \<and> (\<not> truthy (headers_get r ''token'')
        \<and> \<not> prefix ''Bearer '' (case headers_get r ''Authorization'' of None \<Rightarrow> [] | Some a \<Rightarrow> a)
        \<and> truthy (query_get r ''token'')
        \<longrightarrow> extract_token_dify r = Inr (the (query_get r ''token'')))
   \<and> (\<not> truthy (headers_get r ''token'')
        \<and> \<not> prefix ''Bearer '' (case headers_get r ''Authorization'' of None \<Rightarrow> [] | Some a \<Rightarrow> a)
        \<and> \<not> truthy (query_get r ''token'')
        \<longrightarrow> extract_token_dify r = Inl (HTTPException 401 ''Token required. Please provide token in headers.''))
   \<and> (truthy (query_get r ''token'') \<longrightarrow> extract_token r = query_get r ''token'')
   \<and> (\<not> truthy (query_get r ''token'') \<and> truthy (headers_get r ''token'')
        \<longrightarrow> extract_token r = headers_get r ''token'')
   \<and> (\<not> truthy (query_get r ''token'') \<and> \<not> truthy (headers_get r ''token'')
        \<and> stripped_authorization r \<noteq> []
        \<longrightarrow> extract_token r = Some (stripped_authorization r))
   \<and> (\<not> truthy (query_get r ''token'') \<and> \<not> truthy (headers_get r ''token'')
        \<and> stripped_authorization r = [] \<and> truthy (headers_get r ''X-API-Key'')
        \<longrightarrow> extract_token r = headers_get r ''X-API-Key'')
   \<and> (\<not> truthy (query_get r ''token'') \<and> \<not> truthy (headers_get r ''token'')
        \<and> stripped_authorization r = [] \<and> \<not> truthy (headers_get r ''X-API-Key'')
        \<longrightarrow> extract_token r = headers_get r ''api-key'')"
  by (auto simp: extract_token_dify_def extract_token_def py_or_def headers_get_TOKEN Let_def truthy_def
           stripped_authorization_def split: option.splits)

text \<open>The nine cases of the theorem on concrete requests.\<close>

theorem C8_precedence_witness:
  "extract_token_dify \<lparr> headers = [(''token'', ''header-token-1'')], query_params = [(''token'', ''query-token-2'')] \<rparr>
     = Inr ''header-token-1''
   \<and> extract_token_dify \<lparr> headers = [(''Authorization'', ''Bearer bearer-token-3'')],
                          query_params = [(''token'', ''query-token-2'')] \<rparr> = Inr ''bearer-token-3''
   \<and> extract_token_dify \<lparr> headers = [(''Authorization'', ''Bearer '')],
                          query_params = [(''token'', ''query-token-2'')] \<rparr> = Inr []
   \<and> extract_token_dify \<lparr> headers = [], query_params = [(''token'', ''query-token-2'')] \<rparr> = Inr ''query-token-2''
   \<and> extract_token_dify \<lparr> headers = [(''X-API-Key'', ''key-token-4'')], query_params = [] \<rparr>
     = Inl (HTTPException 401 ''Token required. Please provide token in headers.'')
   \<and> extract_token \<lparr> headers = [(''token'', ''header-token-1'')], query_params = [(''token'', ''query-token-2'')] \<rparr>
     = Some ''query-token-2''
   \<and> extract_token \<lparr> headers = [(''token'', ''header-token-1''), (''Authorization'', ''Bearer bearer-token-3'')],
                     query_params = [] \<rparr> = Some ''header-token-1''
   \<and> extract_token \<lparr> headers = [(''Authorization'', ''Bearer bearer-token-3''), (''X-API-Key'', ''key-token-4'')],
                     query_params = [] \<rparr> = Some ''bearer-token-3''
   \<and> extract_token \<lparr> headers = [(''X-API-Key'', ''key-token-4''), (''api-key'', ''key-token-5'')], query_params = [] \<rparr>
     = Some ''key-token-4''
   \<and> extract_token \<lparr> headers = [(''api-key'', ''key-token-5'')], query_params = [] \<rparr> = Some ''key-token-5''
   \<and> extract_token \<lparr> headers = [], query_params = [] \<rparr> = None"
proof -
  let ?r1 = "\<lparr> headers = [(''token'', ''header-token-1'')], query_params = [(''token'', ''query-token-2'')] \<rparr>"
  let ?r2 = "\<lparr> headers = [(''Authorization'', ''Bearer bearer-token-3'')], query_params = [(''token'', ''query-token-2'')] \<rparr>"
  let ?r2e = "\<lparr> headers = [(''Authorization'', ''Bearer '')], query_params = [(''token'', ''query-token-2'')] \<rparr>"
  let ?r3 = "\<lparr> headers = [], query_params = [(''token'', ''query-token-2'')] \<rparr>"
  let ?r3n = "\<lparr> headers = [(''X-API-Key'', ''key-token-4'')], query_params = [] \<rparr>"
  let ?r4 = "\<lparr> headers = [(''token'', ''header-token-1''), (''Authorization'', ''Bearer bearer-token-3'')], query_params = [] \<rparr>"
  let ?r5 = "\<lparr> headers = [(''Authorization'', ''Bearer bearer-token-3''), (''X-API-Key'', ''key-token-4'')], query_params = [] \<rparr>"
  let ?r6 = "\<lparr> headers = [(''X-API-Key'', ''key-token-4''), (''api-key'', ''key-token-5'')], query_params = [] \<rparr>"
  let ?r7 = "\<lparr> headers = [(''api-key'', ''key-token-5'')], query_params = [] \<rparr>"
  let ?r8 = "\<lparr> headers = [], query_params = [] \<rparr>"
  have h1: "headers_get ?r1 ''token'' = Some ''header-token-1''" by code_simp
  have q1: "query_get ?r1 ''token'' = Some ''query-token-2''" by code_simp
  have h2: "headers_get ?r2 ''token'' = None" by code_simp
  have a2: "headers_get ?r2 ''Authorization'' = Some (''Bearer '' @ ''bearer-token-3'')" by code_simp
  have h2e: "headers_get ?r2e ''token'' = None" by code_simp
  have a2e: "headers_get ?r2e ''Authorization'' = Some (''Bearer '' @ [])" by code_simp
  have h3: "headers_get ?r3 ''token'' = None" by code_simp
  have a3: "headers_get ?r3 ''Authorization'' = None" by code_simp
  have q3: "query_get ?r3 ''token'' = Some ''query-token-2''" by code_simp
  have h3n: "headers_get ?r3n ''token'' = None" by code_simp
  have a3n: "headers_get ?r3n ''Authorization'' = None" by code_simp
  have q3n: "query_get ?r3n ''token'' = None" by code_simp
  have h4: "headers_get ?r4 ''token'' = Some ''header-token-1''" by code_simp
  have q4: "query_get ?r4 ''token'' = None" by code_simp
  have h5: "headers_get ?r5 ''token'' = None" by code_simp
  have q5: "query_get ?r5 ''token'' = None" by code_simp
  have a5: "stripped_authorization ?r5 = ''bearer-token-3''" by code_simp
  have h6: "headers_get ?r6 ''token'' = None" by code_simp
  have q6: "query_get ?r6 ''token'' = None" by code_simp
  have a6: "stripped_authorization ?r6 = []" by code_simp
  have x6: "headers_get ?r6 ''X-API-Key'' = Some ''key-token-4''" by code_simp
  have h7: "headers_get ?r7 ''token'' = None" by code_simp
  have q7: "query_get ?r7 ''token'' = None" by code_simp
  have a7: "stripped_authorization ?r7 = []" by code_simp
  have x7: "headers_get ?r7 ''X-API-Key'' = None" by code_simp
  have k7: "headers_get ?r7 ''api-key'' = Some ''key-token-5''" by code_simp
  have h8: "headers_get ?r8 ''token'' = None" by code_simp
  have q8: "query_get ?r8 ''token'' = None" by code_simp
  have a8: "stripped_authorization ?r8 = []" by code_simp
  have x8: "headers_get ?r8 ''X-API-Key'' = None" by code_simp
  have k8: "headers_get ?r8 ''api-key'' = None" by code_simp
  have c1: "extract_token_dify ?r1 = Inr ''header-token-1''"
    using C8_precedence[of ?r1] h1 by (simp add: truthy_def)
  have c2: "extract_token_dify ?r2 = Inr ''bearer-token-3''"
    using C8_precedence[of ?r2 "''bearer-token-3''"] h2 a2 by (simp add: truthy_def)
  have c2e: "extract_token_dify ?r2e = Inr []"
    using C8_precedence[of ?r2e "[]"] h2e a2e by (simp add: truthy_def)
  have c3: "extract_token_dify ?r3 = Inr ''query-token-2''"
    using C8_precedence[of ?r3] h3 a3 q3 by (simp add: truthy_def)
  have c3n: "extract_token_dify ?r3n = Inl (HTTPException 401 ''Token required. Please provide token in headers.'')"
    using C8_precedence[of ?r3n] h3n a3n q3n by (simp add: truthy_def)
  have c4: "extract_token ?r1 = Some ''query-token-2''"
    using C8_precedence[of ?r1] q1 by (simp add: truthy_def)
  have c5: "extract_token ?r4 = Some ''header-token-1''"
    using C8_precedence[of ?r4] h4 q4 by (simp add: truthy_def)
  have c6: "extract_token ?r5 = Some ''bearer-token-3''"
    using C8_precedence[of ?r5] h5 q5 a5 by (simp add: truthy_def)
  have c7: "extract_token ?r6 = Some ''key-token-4''"
    using C8_precedence[of ?r6] h6 q6 a6 x6 by (simp add: truthy_def)
  have c8: "extract_token ?r7 = Some ''key-token-5''"
    using C8_precedence[of ?r7] h7 q7 a7 x7 k7 by (simp add: truthy_def)
  have c9: "extract_token ?r8 = None"
    using C8_precedence[of ?r8] h8 q8 a8 x8 k8 by (simp add: truthy_def)
  from c1 c2 c2e c3 c3n c4 c5 c6 c7 c8 c9 show ?thesis by blast
qed

text \<open>
  The claim as stated fails in the HTTP and the SSE server: with a \<^verbatim>\<open>token\<close> header and a
  \<^verbatim>\<open>token\<close> query parameter, the query parameter is the credential.
\<close>

theorem C8_precedence_counterexample:
  "extract_token \<lparr> headers = [(''token'', ''header-token-1'')], query_params = [(''token'', ''query-token-2'')] \<rparr>
     = Some ''query-token-2''
   \<and> extract_token \<lparr> headers = [(''token'', ''header-token-1'')], query_params = [(''token'', ''query-token-2'')] \<rparr>
     \<noteq> Some ''header-token-1''
   \<and> headers_get \<lparr> headers = [(''token'', ''header-token-1'')], query_params = [(''token'', ''query-token-2'')] \<rparr> ''token''
     = Some ''header-token-1''"
  by (simp add: extract_token_def py_or_def truthy_def query_get_def headers_get_def py_lower_def ascii_lower_def)

section \<open>Claims about the catalogue fetcher\<close>

text \<open>
  C2 (as amended). In the HTTP and the SSE server a credential that is missing, empty or shorter
  than 10 characters makes \<^verbatim>\<open>fetch_superior_apis_tools\<close> return the empty list with the state
  unchanged: nothing is sent upstream, the synthesis is not run and the cache is not touched. (The Dify server's
  \<^verbatim>\<open>fetch_superior_tools\<close> has no such check, see the counterexample.)
\<close>

theorem C2_credential_gate:
  "token = None \<or> (\<exists>t. token = Some t \<and> (t = [] \<or> py_len t < 10)) \<Longrightarrow>
   fetch_superior_apis_tools synthesize cfg upstream token s = ([], s)"
  by (auto simp: fetch_superior_apis_tools_def truthy_def)

text \<open>The three rejected credentials, and a credential of 17 characters for which a request is
  sent.\<close>

theorem C2_credential_gate_witness:
  "fetch_superior_apis_tools (\<lambda>_. Some [get_forecast]) \<lparr> superior_api_base = ''https://b'', plugins_list_url = ''https://b/list'' \<rparr>
      (\<lambda>_. Reply 200 ''{}'' (Some (JObj []))) None \<lparr> tools_cache = Map.empty, session_store = Map.empty, sent = [] \<rparr>
     = ([], \<lparr> tools_cache = Map.empty, session_store = Map.empty, sent = [] \<rparr>)
   \<and> fetch_superior_apis_tools (\<lambda>_. Some [get_forecast]) \<lparr> superior_api_base = ''https://b'', plugins_list_url = ''https://b/list'' \<rparr>
      (\<lambda>_. Reply 200 ''{}'' (Some (JObj []))) (Some []) \<lparr> tools_cache = Map.empty, session_store = Map.empty, sent = [] \<rparr>
     = ([], \<lparr> tools_cache = Map.empty, session_store = Map.empty, sent = [] \<rparr>)
   \<and> fetch_superior_apis_tools (\<lambda>_. Some [get_forecast]) \<lparr> superior_api_base = ''https://b'', plugins_list_url = ''https://b/list'' \<rparr>
      (\<lambda>_. Reply 200 ''{}'' (Some (JObj []))) (Some ''short'') \<lparr> tools_cache = Map.empty, session_store = Map.empty, sent = [] \<rparr>
     = ([], \<lparr> tools_cache = Map.empty, session_store = Map.empty, sent = [] \<rparr>)
   \<and> sent (snd (fetch_superior_apis_tools (\<lambda>_. Some [get_forecast]) \<lparr> superior_api_base = ''https://b'', plugins_list_url = ''https://b/list'' \<rparr>
      (\<lambda>_. Reply 200 ''{}'' (Some (JObj []))) (Some ''long-enough-token'') \<lparr> tools_cache = Map.empty, session_store = Map.empty, sent = [] \<rparr>))
     \<noteq> []"
proof -
  have "py_len ''short'' < 10" by code_simp
  then have l: "\<exists>t. Some ''short'' = Some t \<and> (t = [] \<or> py_len t < 10)" by simp
  have g: "\<not> py_len ''long-enough-token'' < 10" by code_simp
  show ?thesis
    using C2_credential_gate[of None] C2_credential_gate[of "Some []"]
      C2_credential_gate[of "Some ''short''", OF disjI2, OF l] g
    by (simp add: fetch_superior_apis_tools_def truthy_def Let_def split: reply.splits option.splits)
qed

text \<open>
  The claim as stated fails in the Dify server: for the credential \<^verbatim>\<open>short\<close> (5 characters) and
  for the empty credential, \<^verbatim>\<open>fetch_superior_tools\<close> sends the catalogue request.
\<close>

theorem C2_credential_gate_counterexample:
  "py_len ''short'' < 10
   \<and> dify_sent (snd (fetch_superior_tools (\<lambda>_. []) (\<lambda>_. ClientError) 0 0 ''short''
                       \<lparr> dify_cache = Map.empty, dify_sent = [] \<rparr>))
     = [\<lparr> call_method = ''POST'', call_url = PLUGINS_LIST_URL,
         call_headers = [(''token'', JStr ''short''), (''Content-Type'', JStr ''application/json'')],
         call_params = None, call_json = Some (JObj []) \<rparr>]
   \<and> dify_sent (snd (fetch_superior_tools (\<lambda>_. []) (\<lambda>_. ClientError) 0 0 []
                       \<lparr> dify_cache = Map.empty, dify_sent = [] \<rparr>)) \<noteq> []"
proof -
  have "py_len ''short'' < 10" by code_simp
  then show ?thesis by (simp add: fetch_superior_tools_def)
qed

text \<open>The four ways \<^verbatim>\<open>fetch_superior_apis_tools\<close> can end.\<close>

lemma fetch_cases:
  "((token = None \<or> token = Some [] \<or> py_len (the token) < 10)
      \<and> fetch_superior_apis_tools synthesize cfg upstream token s = ([], s))
   \<or> (\<exists>tok tools. tok \<noteq> [] \<and> \<not> py_len tok < 10 \<and> token = Some tok \<and> tools_cache s tok = Some tools
        \<and> fetch_superior_apis_tools synthesize cfg upstream token s = (tools, s))
   \<or> (\<exists>tok. token = Some tok \<and> tools_cache s tok = None \<and> tok \<noteq> [] \<and> \<not> py_len tok < 10
        \<and> (\<forall>body_text data. upstream (catalogue_call cfg tok) = Reply 200 body_text (Some data)
               \<longrightarrow> synthesize data = None)
        \<and> fetch_superior_apis_tools synthesize cfg upstream token s
            = ([], s\<lparr> sent := sent s @ [catalogue_call cfg tok] \<rparr>))
   \<or> (\<exists>tok body_text data tools. token = Some tok \<and> tools_cache s tok = None \<and> tok \<noteq> [] \<and> \<not> py_len tok < 10
        \<and> upstream (catalogue_call cfg tok) = Reply 200 body_text (Some data)
        \<and> synthesize data = Some tools
        \<and> fetch_superior_apis_tools synthesize cfg upstream token s
            = (tools, s\<lparr> sent := sent s @ [catalogue_call cfg tok],
                         tools_cache := (tools_cache s)(tok \<mapsto> tools) \<rparr>))"
  by (auto simp: fetch_superior_apis_tools_def catalogue_call_def truthy_def Let_def
           split: option.splits reply.splits)

text \<open>
  C10 (as amended). In the HTTP and the SSE server:
  \<^item> the cache changes only when the upstream answers 200 with a JSON body from which the tool
    list is built, and then only the entry of the credential changes, to that list;
  \<^item> a fetch that fails (network error, status other than 200, body that is not JSON, or a body
    the synthesis raises on) returns the empty list and leaves the cache as it was;
  \<^item> a successful fetch that yields no tools stores the empty list;
  \<^item> with the empty list stored, a later call returns it and sends nothing, whatever the upstream
    would answer.
  (In the Dify server a 200 answer without the key \<^verbatim>\<open>plugins\<close> is returned as the empty list
  without being stored, see the counterexample.)
\<close>

theorem C10_cache_write:
  "(tools_cache (snd (fetch_superior_apis_tools synthesize cfg upstream (Some tok) s)) \<noteq> tools_cache s
      \<longrightarrow> (\<exists>body_text data tools. upstream (catalogue_call cfg tok) = Reply 200 body_text (Some data)
            \<and> synthesize data = Some tools
            \<and> tools_cache (snd (fetch_superior_apis_tools synthesize cfg upstream (Some tok) s))
                = (tools_cache s)(tok \<mapsto> tools)))
   \<and> (tools_cache s tok = None
       \<and> (\<forall>body_text data. upstream (catalogue_call cfg tok) = Reply 200 body_text (Some data)
              \<longrightarrow> synthesize data = None)
      \<longrightarrow> fst (fetch_superior_apis_tools synthesize cfg upstream (Some tok) s) = []
          \<and> tools_cache (snd (fetch_superior_apis_tools synthesize cfg upstream (Some tok) s)) = tools_cache s)
   \<and> (tok \<noteq> [] \<and> \<not> py_len tok < 10 \<and> tools_cache s tok = None
       \<and> upstream (catalogue_call cfg tok) = Reply 200 body_text (Some data)
       \<and> synthesize data = Some []
      \<longrightarrow> fst (fetch_superior_apis_tools synthesize cfg upstream (Some tok) s) = []
          \<and> tools_cache (snd (fetch_superior_apis_tools synthesize cfg upstream (Some tok) s)) tok = Some [])
   \<and> (tok \<noteq> [] \<and> \<not> py_len tok < 10 \<and> tools_cache s tok = Some []
      \<longrightarrow> fetch_superior_apis_tools synthesize cfg upstream' (Some tok) s = ([], s))"
  using fetch_cases[where synthesize = synthesize and cfg = cfg and upstream = upstream and token = "Some tok" and s = s]
    fetch_cases[where synthesize = synthesize and cfg = cfg and upstream = upstream' and token = "Some tok" and s = s]
  by auto

text \<open>
  The theorem at a valid credential: the answer \<^verbatim>\<open>{}\<close> with status 200 stores the empty list and
  sends one request, the next call (the upstream now failing) returns the stored list and leaves
  the state as it is, and an answer with status 500 leaves the cache empty.
\<close>

theorem C10_cache_write_witness:
  "(let cfg = \<lparr> superior_api_base = ''https://b'', plugins_list_url = ''https://b/list'' \<rparr>;
        s0 = \<lparr> tools_cache = Map.empty, session_store = Map.empty, sent = [] \<rparr>;
        tok = ''token-0123456789'';
        ok = fetch_superior_apis_tools (\<lambda>_. Some []) cfg
               (\<lambda>_. Reply 200 ''{}'' (Some (JObj []))) (Some tok) s0;
        again = fetch_superior_apis_tools (\<lambda>_. Some []) cfg (\<lambda>_. ClientError) (Some tok) (snd ok);
        failed = fetch_superior_apis_tools (\<lambda>_. Some [get_forecast]) cfg
               (\<lambda>_. Reply 500 ''oops'' None) (Some tok) s0
    in fst ok = [] \<and> tools_cache (snd ok) = (tools_cache s0)(tok \<mapsto> []) \<and> length (sent (snd ok)) = 1
       \<and> again = ([], snd ok)
       \<and> fst failed = [] \<and> tools_cache (snd failed) = tools_cache s0 \<and> length (sent (snd failed)) = 1)"
proof -
  let ?cfg = "\<lparr> superior_api_base = ''https://b'', plugins_list_url = ''https://b/list'' \<rparr>"
  let ?s0 = "\<lparr> tools_cache = Map.empty, session_store = Map.empty, sent = [] \<rparr>"
  let ?tok = "''token-0123456789''"
  let ?up = "\<lambda>_::http_call. Reply 200 ''{}'' (Some (JObj []))"
  let ?down = "\<lambda>_::http_call. Reply 500 ''oops'' None"
  let ?fh = "\<lambda>_::json. Some ([]::tool list)"
  let ?fs = "\<lambda>_::json. Some [get_forecast]"
  have len: "\<not> py_len ?tok < 10" by code_simp
  have ne: "?tok \<noteq> []" by simp
  have build: "?fh (JObj []) = Some []"
    by simp
  have up: "?up (catalogue_call ?cfg ?tok) = Reply 200 ''{}'' (Some (JObj []))"
    by simp
  have none: "tools_cache ?s0 ?tok = None" by simp
  note w = C10_cache_write[where synthesize = "?fh" and cfg = "?cfg" and upstream = "?up" and tok = "?tok" and s = "?s0"
      and body_text = "''{}''" and data = "JObj []"]
  from w ne len none up build
  have ok: "fst (fetch_superior_apis_tools ?fh ?cfg ?up (Some ?tok) ?s0) = []"
    "tools_cache (snd (fetch_superior_apis_tools ?fh ?cfg ?up (Some ?tok) ?s0)) ?tok = Some []"
    by blast+
  have changed: "tools_cache (snd (fetch_superior_apis_tools ?fh ?cfg ?up (Some ?tok) ?s0)) \<noteq> tools_cache ?s0"
    using ok(2) none by (metis option.distinct(1))
  with w build have cache: "tools_cache (snd (fetch_superior_apis_tools ?fh ?cfg ?up (Some ?tok) ?s0))
      = (tools_cache ?s0)(?tok \<mapsto> [])"
    by auto
  have again: "fetch_superior_apis_tools ?fh ?cfg (\<lambda>_. ClientError) (Some ?tok)
        (snd (fetch_superior_apis_tools ?fh ?cfg ?up (Some ?tok) ?s0))
      = ([], snd (fetch_superior_apis_tools ?fh ?cfg ?up (Some ?tok) ?s0))"
    using C10_cache_write[where synthesize = "?fh" and cfg = "?cfg" and upstream' = "\<lambda>_. ClientError" and tok = "?tok"
        and s = "snd (fetch_superior_apis_tools ?fh ?cfg ?up (Some ?tok) ?s0)"] ne len ok(2)
    by blast
  have failed: "fst (fetch_superior_apis_tools ?fs ?cfg ?down (Some ?tok) ?s0) = []"
    "tools_cache (snd (fetch_superior_apis_tools ?fs ?cfg ?down (Some ?tok) ?s0)) = tools_cache ?s0"
    using C10_cache_write[where synthesize = "?fs" and cfg = "?cfg" and upstream = "?down" and tok = "?tok" and s = "?s0"] none
    by auto
  have sent1: "length (sent (snd (fetch_superior_apis_tools ?fh ?cfg ?up (Some ?tok) ?s0))) = 1"
    using len build by (simp add: fetch_superior_apis_tools_def truthy_def Let_def)
  have sent2: "length (sent (snd (fetch_superior_apis_tools ?fs ?cfg ?down (Some ?tok) ?s0))) = 1"
    using len by (simp add: fetch_superior_apis_tools_def truthy_def Let_def)
  show ?thesis
    unfolding Let_def using ok(1) cache again failed sent1 sent2 by blast
qed

text \<open>
  The claim as stated fails in the Dify server: the answer \<^verbatim>\<open>{}\<close> with status 200 yields no
  tools, nothing is stored, and the next call sends a second request.
\<close>

theorem C10_cache_write_counterexample:
  "(let s0 = \<lparr> dify_cache = Map.empty, dify_sent = [] \<rparr>;
        tok = ''token-0123456789'';
        up = (\<lambda>_. Reply 200 ''{}'' (Some (JObj [])));
        first = fetch_superior_tools (\<lambda>_. []) up 0 0 tok s0;
        second = fetch_superior_tools (\<lambda>_. []) up 1 1 tok (snd first)
    in fst first = [] \<and> dify_cache (snd first) tok = None
       \<and> length (dify_sent (snd first)) = 1 \<and> length (dify_sent (snd second)) = 2)"
  by (simp add: fetch_superior_tools_def py_in_def Let_def)

text \<open>
  C4 (as amended). In the Dify server, whose \<^verbatim>\<open>CACHE_TTL\<close> is 300 seconds,
  \<^verbatim>\<open>fetch_superior_tools\<close> ends in one of three ways:
  \<^item> the credential has a cached list, stored less than 300 seconds before the call's reading of
    the clock: that list is returned and the state is unchanged (nothing is sent);
  \<^item> otherwise one catalogue request is sent, and when the upstream answers 200 with a JSON body
    that has the key \<^verbatim>\<open>plugins\<close> and from which the loops build a tool list, that list is
    returned and stored with the clock reading taken after the loops;
  \<^item> otherwise, the request having been sent, the empty list is returned and the credential has
    no entry in the cache afterwards: an entry of age 300 seconds or more is deleted.
  So the list returned is the cached list younger than 300 seconds, or the list built from the
  answer to the request of this call, or empty; it never comes from an entry of age 300 seconds
  or more. (The HTTP and the SSE server store no timestamp and read no clock, see the
  counterexample.)
\<close>

theorem C4_ttl_dify:
  "(dify_cache s token = Some (cached, ts) \<and> current_time - ts < 300
      \<longrightarrow> fetch_superior_tools repr upstream current_time store_time token s = (cached, s))
   \<and> ((dify_cache s token = None \<or> (\<exists>old ts. dify_cache s token = Some (old, ts) \<and> \<not> current_time - ts < 300))
       \<and> upstream (dify_catalogue_call token) = Reply 200 body_text (Some data)
       \<and> py_in ''plugins'' data = Some True \<and> dify_build repr data = Some tools
      \<longrightarrow> fetch_superior_tools repr upstream current_time store_time token s
            = (tools, s\<lparr> dify_cache := (dify_cache s)(token \<mapsto> (tools, store_time)),
                         dify_sent := dify_sent s @ [dify_catalogue_call token] \<rparr>))
   \<and> ((dify_cache s token = None \<or> (\<exists>old ts. dify_cache s token = Some (old, ts) \<and> \<not> current_time - ts < 300))
       \<and> \<not> (\<exists>body_text data tools. upstream (dify_catalogue_call token) = Reply 200 body_text (Some data)
                \<and> py_in ''plugins'' data = Some True \<and> dify_build repr data = Some tools)
      \<longrightarrow> fetch_superior_tools repr upstream current_time store_time token s
            = ([], s\<lparr> dify_cache := (dify_cache s)(token := None),
                      dify_sent := dify_sent s @ [dify_catalogue_call token] \<rparr>))"
proof (intro conjI impI)
  assume "dify_cache s token = Some (cached, ts) \<and> current_time - ts < 300"
  then show "fetch_superior_tools repr upstream current_time store_time token s = (cached, s)"
    by (simp add: fetch_superior_tools_def CACHE_TTL_def)
next
  assume a: "(dify_cache s token = None \<or> (\<exists>old ts. dify_cache s token = Some (old, ts) \<and> \<not> current_time - ts < 300))
       \<and> upstream (dify_catalogue_call token) = Reply 200 body_text (Some data)
       \<and> py_in ''plugins'' data = Some True \<and> dify_build repr data = Some tools"
  then have miss: "(case dify_cache s token of
              Some cache_data \<Rightarrow> if current_time - snd cache_data < CACHE_TTL then Some (fst cache_data) else None
            | None \<Rightarrow> None) = None"
    by (auto simp: CACHE_TTL_def)
  from a show "fetch_superior_tools repr upstream current_time store_time token s
            = (tools, s\<lparr> dify_cache := (dify_cache s)(token \<mapsto> (tools, store_time)),
                         dify_sent := dify_sent s @ [dify_catalogue_call token] \<rparr>)"
    unfolding fetch_superior_tools_def miss
    by (simp add: dify_catalogue_call_def Let_def)
next
  assume a: "(dify_cache s token = None \<or> (\<exists>old ts. dify_cache s token = Some (old, ts) \<and> \<not> current_time - ts < 300))
       \<and> \<not> (\<exists>body_text data tools. upstream (dify_catalogue_call token) = Reply 200 body_text (Some data)
                \<and> py_in ''plugins'' data = Some True \<and> dify_build repr data = Some tools)"
  then have miss: "(case dify_cache s token of
              Some cache_data \<Rightarrow> if current_time - snd cache_data < CACHE_TTL then Some (fst cache_data) else None
            | None \<Rightarrow> None) = None"
    by (auto simp: CACHE_TTL_def)
  from a have no: "\<And>body_text data tools. upstream (dify_catalogue_call token) = Reply 200 body_text (Some data)
       \<Longrightarrow> py_in ''plugins'' data = Some True \<Longrightarrow> dify_build repr data \<noteq> Some tools"
    by blast
  show "fetch_superior_tools repr upstream current_time store_time token s
            = ([], s\<lparr> dify_cache := (dify_cache s)(token := None),
                      dify_sent := dify_sent s @ [dify_catalogue_call token] \<rparr>)"
    unfolding fetch_superior_tools_def miss
    using no
    by (auto simp: dify_catalogue_call_def Let_def split: reply.splits option.splits bool.splits)
qed

text \<open>
  The theorem at an entry stored at time 1000 that holds the tool \<^verbatim>\<open>get_item\<close>, the upstream
  now offering a catalogue with no plugin: at time 1299 the stored list is served and nothing is
  sent; at time 1300 the request is sent, the empty list of the answer is returned and stored
  with the new clock reading; when the upstream fails at time 1300, the empty list is returned
  and the entry is gone.
\<close>

theorem C4_ttl_dify_witness:
  "(let tok = ''token-0123456789'';
        s = \<lparr> dify_cache = [tok \<mapsto> ([dify_get_item], 1000)], dify_sent = [] \<rparr>;
        up = (\<lambda>_. Reply 200 [] (Some (JObj [(''plugins'', JArr [])])));
        fresh = fetch_superior_tools (\<lambda>_. []) up 1299 1299.5 tok s;
        stale = fetch_superior_tools (\<lambda>_. []) up 1300 1300.5 tok s;
        failed = fetch_superior_tools (\<lambda>_. []) (\<lambda>_. ClientError) 1300 1300.5 tok s
    in fresh = ([dify_get_item], s)
       \<and> stale = ([], \<lparr> dify_cache = [tok \<mapsto> ([], 1300.5)], dify_sent = [dify_catalogue_call tok] \<rparr>)
       \<and> failed = ([], \<lparr> dify_cache = Map.empty, dify_sent = [dify_catalogue_call tok] \<rparr>))"
proof -
  let ?tok = "''token-0123456789''"
  let ?s = "\<lparr> dify_cache = [?tok \<mapsto> ([dify_get_item], 1000)], dify_sent = [] \<rparr>"
  let ?data = "JObj [(''plugins'', JArr [])]"
  let ?up = "\<lambda>_::http_call. Reply 200 [] (Some ?data)"
  let ?down = "\<lambda>_::http_call. ClientError"
  have entry: "dify_cache ?s ?tok = Some ([dify_get_item], 1000)" by simp
  have old: "dify_cache ?s ?tok = None
             \<or> (\<exists>old ts. dify_cache ?s ?tok = Some (old, ts) \<and> \<not> (1300::real) - ts < 300)"
    by simp
  have has: "py_in ''plugins'' ?data = Some True" by (simp add: py_in_def)
  have built: "dify_build (\<lambda>_. []) ?data = Some []"
    by (simp add: dify_build_def py_index_def py_sized_def py_iter_def)
  have nothing: "\<not> (\<exists>body_text data tools. ?down (dify_catalogue_call ?tok) = Reply 200 body_text (Some data)
                \<and> py_in ''plugins'' data = Some True \<and> dify_build (\<lambda>_. []) data = Some tools)"
    by simp
  have a: "fetch_superior_tools (\<lambda>_. []) ?up 1299 1299.5 ?tok ?s = ([dify_get_item], ?s)"
    using C4_ttl_dify[where s = "?s" and token = "?tok" and cached = "[dify_get_item]" and ts = 1000
        and current_time = 1299 and repr = "\<lambda>_. []" and upstream = "?up" and store_time = "1299.5"] entry
    by simp
  have b: "fetch_superior_tools (\<lambda>_. []) ?up 1300 1300.5 ?tok ?s
        = ([], ?s\<lparr> dify_cache := (dify_cache ?s)(?tok \<mapsto> ([], 1300.5)),
                    dify_sent := dify_sent ?s @ [dify_catalogue_call ?tok] \<rparr>)"
    using C4_ttl_dify[where s = "?s" and token = "?tok" and current_time = 1300 and repr = "\<lambda>_. []"
        and upstream = "?up" and store_time = "1300.5" and body_text = "[]" and data = "?data" and tools = "[]"]
      old has built
    by blast
  have c: "fetch_superior_tools (\<lambda>_. []) ?down 1300 1300.5 ?tok ?s
        = ([], ?s\<lparr> dify_cache := (dify_cache ?s)(?tok := None),
                    dify_sent := dify_sent ?s @ [dify_catalogue_call ?tok] \<rparr>)"
    using C4_ttl_dify[where s = "?s" and token = "?tok" and current_time = 1300 and repr = "\<lambda>_. []"
        and upstream = "?down" and store_time = "1300.5"] old nothing
    by blast
  show ?thesis unfolding Let_def using a b c by simp
qed

text \<open>
  The claim as stated fails in the HTTP server (and in the SSE server, whose fetcher is the same
  text): \<^verbatim>\<open>fetch_superior_apis_tools\<close> takes no reading of the clock and the cache holds no
  timestamp, so a list once stored is returned by every later call, with no request sent, however
  long after and whatever the upstream holds by then. Here the cache holds the tool
  \<^verbatim>\<open>get_forecast\<close> while the upstream offers a catalogue with no plugin.
\<close>

theorem C4_ttl_counterexample:
  "(let cfg = \<lparr> superior_api_base = ''https://b'', plugins_list_url = ''https://b/list'' \<rparr>;
        s = \<lparr> tools_cache = [''token-0123456789'' \<mapsto> [get_forecast]], session_store = Map.empty, sent = [] \<rparr>;
        later = fetch_superior_apis_tools (\<lambda>_. Some []) cfg
                  (\<lambda>_. Reply 200 [] (Some (JObj [(''plugins'', JArr [])]))) (Some ''token-0123456789'') s
    in later = ([get_forecast], s))"
proof -
  have "\<not> py_len ''token-0123456789'' < 10" by code_simp
  then show ?thesis
    by (simp add: fetch_superior_apis_tools_def truthy_def Let_def)
qed

section \<open>The tool listing\<close>

text \<open>
  C3. The SSE server's \<^verbatim>\<open>tools/list\<close> answers with the cached tool dicts as they are: for a
  valid credential whose cache holds the tool \<^verbatim>\<open>get_forecast\<close>, the listing carries the key
  \<^verbatim>\<open>_meta\<close> with the base URL, the path, the method, the plugin name and the original spec.
  The HTTP server's \<^verbatim>\<open>handle_tools_list\<close> answers the same request in the same state with the
  triple of name, description and inputSchema.
\<close>

theorem C3_listing:
  "handle_mcp_messages repr synthesize cfg upstream
      \<lparr> headers = [(''token'', ''token-0123456789'')], query_params = [] \<rparr>
      (Json (JObj [(''jsonrpc'', JStr ''2.0''), (''id'', JInt 1), (''method'', JStr ''tools/list'')]))
      \<lparr> tools_cache = [''token-0123456789'' \<mapsto> [get_forecast]], session_store = Map.empty, sent = [] \<rparr>
   = (JSONResponse 200 (Response (JInt 1) (JObj [(''tools'', JArr
        [JObj [(''name'', JStr ''get_forecast''),
               (''description'', JStr ''Forecast for a city''),
               (''inputSchema'', inputSchema get_forecast),
               (''_meta'', JObj [(''base_url'', JStr ''https://b''), (''path'', JStr ''/forecast''),
                                 (''method'', JStr ''GET''), (''plugin_name'', JStr ''weather''),
                                 (''original_spec'', forecast_spec)])]])])),
      \<lparr> tools_cache = [''token-0123456789'' \<mapsto> [get_forecast]], session_store = Map.empty, sent = [] \<rparr>)
   \<and> handle_tools_list synthesize cfg upstream (JInt 1)
      \<lparr> headers = [(''token'', ''token-0123456789'')], query_params = [] \<rparr>
      \<lparr> tools_cache = [''token-0123456789'' \<mapsto> [get_forecast]], session_store = Map.empty, sent = [] \<rparr>
   = (Response (JInt 1) (JObj [(''tools'', JArr
        [JObj [(''name'', JStr ''get_forecast''),
               (''description'', JStr ''Forecast for a city''),
               (''inputSchema'', inputSchema get_forecast)]])]),
      \<lparr> tools_cache = [''token-0123456789'' \<mapsto> [get_forecast]], session_store = Map.empty, sent = [] \<rparr>)"
proof -
  let ?r = "\<lparr> headers = [(''token'', ''token-0123456789'')], query_params = [] \<rparr>"
  have tok: "extract_token ?r = Some ''token-0123456789''" by code_simp
  have len: "\<not> py_len ''token-0123456789'' < 10" by code_simp
  have rend: "rpc_renderable (Response (JInt 1) (JObj [(''tools'', JArr [tool_json get_forecast])]))"
    by code_simp
  show ?thesis
    using tok len rend
    by (simp add: handle_mcp_messages_def handle_tools_list_def fetch_superior_apis_tools_def truthy_def
          sse_respond_def tool_json_def mcp_tool_def get_forecast_def Let_def get_default_def)
qed

section \<open>Parameter routing\<close>






















section \<open>Claims about batches\<close>













section \<open>The flatteners and the caller's schema\<close>

text \<open>
  C6. Neither \<^verbatim>\<open>flatten_enum\<close> leaves its input alone. The input is an object schema
  with one property \<^verbatim>\<open>mode\<close>, a string with the enum \<^verbatim>\<open>a\<close>, \<^verbatim>\<open>b\<close> and the
  description \<^verbatim>\<open>mode\<close>; the caller holds it at address 0. Both flatteners return a new root
  object (address 3) whose \<^verbatim>\<open>properties\<close> is the very dict of the input (address 1). The
  flattener of \<^verbatim>\<open>mcp_server_sse.py\<close> assigns the flattened copy of \<^verbatim>\<open>mode\<close> into that shared
  dict; the flattener of \<^verbatim>\<open>mcp_server_http.py\<close> rewrites the description and pops the enum of
  the input's own \<^verbatim>\<open>mode\<close> object (address 2). In both cases the caller, reading its schema
  again after the call, sees the flattened schema (the value the pure model returns) instead of
  the one it passed in.
\<close>

theorem C6_flatten_mutates_input:
  "read_json 10 mode_heap (PRef 0) = Some mode_schema
   \<and> flatten_enum_sse_heap 10 hrepr (PRef 0) mode_heap
       = Returns (PRef 3,
           [ [(''type'', PStr ''object''), (''properties'', PRef 1)],
            [(''mode'', PRef 4)],
            [(''type'', PStr ''string''), (''enum'', PList [PStr ''a'', PStr ''b'']),
             (''description'', PStr ''mode'')],
            [(''type'', PStr ''object''), (''properties'', PRef 1)],
            [(''type'', PStr ''string''), (''description'', PStr ''mode | Enum: a, b'')] ])
   \<and> read_json 10
         [ [(''type'', PStr ''object''), (''properties'', PRef 1)],
          [(''mode'', PRef 4)],
          [(''type'', PStr ''string''), (''enum'', PList [PStr ''a'', PStr ''b'']),
           (''description'', PStr ''mode'')],
          [(''type'', PStr ''object''), (''properties'', PRef 1)],
          [(''type'', PStr ''string''), (''description'', PStr ''mode | Enum: a, b'')] ]
         (PRef 0)
       = flatten_enum_sse repr mode_schema
   \<and> flatten_enum_sse repr mode_schema \<noteq> Some mode_schema
   \<and> flatten_enum_http_heap 10 hrepr (PRef 0) mode_heap
       = Returns (PRef 3,
           [ [(''type'', PStr ''object''), (''properties'', PRef 1)],
            [(''mode'', PRef 2)],
            [(''type'', PStr ''string''),
             (''description'', PStr (''mode'' @ enum_delim_list @ ''a, b''))],
            [(''type'', PStr ''object''), (''properties'', PRef 1)] ])
   \<and> read_json 10
         [ [(''type'', PStr ''object''), (''properties'', PRef 1)],
          [(''mode'', PRef 2)],
          [(''type'', PStr ''string''),
           (''description'', PStr (''mode'' @ enum_delim_list @ ''a, b''))],
          [(''type'', PStr ''object''), (''properties'', PRef 1)] ]
         (PRef 0)
       = flatten_enum_http repr mode_schema
   \<and> flatten_enum_http repr mode_schema \<noteq> Some mode_schema"
proof -
  have 1: "read_json 10 mode_heap (PRef 0) = Some mode_schema" by code_simp
  have 2: "flatten_enum_sse_heap 10 hrepr (PRef 0) mode_heap
       = Returns (PRef 3,
           [ [(''type'', PStr ''object''), (''properties'', PRef 1)],
            [(''mode'', PRef 4)],
            [(''type'', PStr ''string''), (''enum'', PList [PStr ''a'', PStr ''b'']),
             (''description'', PStr ''mode'')],
            [(''type'', PStr ''object''), (''properties'', PRef 1)],
            [(''type'', PStr ''string''), (''description'', PStr ''mode | Enum: a, b'')] ])"
    by code_simp
  have 3: "read_json 10
         [ [(''type'', PStr ''object''), (''properties'', PRef 1)],
          [(''mode'', PRef 4)],
          [(''type'', PStr ''string''), (''enum'', PList [PStr ''a'', PStr ''b'']),
           (''description'', PStr ''mode'')],
          [(''type'', PStr ''object''), (''properties'', PRef 1)],
          [(''type'', PStr ''string''), (''description'', PStr ''mode | Enum: a, b'')] ]
         (PRef 0)
       = flatten_enum_sse repr mode_schema"
    by code_simp
  have 4: "flatten_enum_sse repr mode_schema \<noteq> Some mode_schema" by code_simp
  have 5: "flatten_enum_http_heap 10 hrepr (PRef 0) mode_heap
       = Returns (PRef 3,
           [ [(''type'', PStr ''object''), (''properties'', PRef 1)],
            [(''mode'', PRef 2)],
            [(''type'', PStr ''string''),
             (''description'', PStr (''mode'' @ enum_delim_list @ ''a, b''))],
            [(''type'', PStr ''object''), (''properties'', PRef 1)] ])"
    by code_simp
  have 6: "read_json 10
         [ [(''type'', PStr ''object''), (''properties'', PRef 1)],
          [(''mode'', PRef 2)],
          [(''type'', PStr ''string''),
           (''description'', PStr (''mode'' @ enum_delim_list @ ''a, b''))],
          [(''type'', PStr ''object''), (''properties'', PRef 1)] ]
         (PRef 0)
       = flatten_enum_http repr mode_schema"
    by code_simp
  have 7: "flatten_enum_http repr mode_schema \<noteq> Some mode_schema" by code_simp
  from 1 2 3 4 5 6 7 show ?thesis by blast
qed

end
